theory Spec2Isabelle
  imports Main "HOL-Library.Word" "HOL-Library.Sublist"
begin

section \<open>Values of the plugin framework\<close>

text \<open>
  An attribute value of the plugin framework (\<open>types.String\<close>, \<open>types.Bool\<close>,
  \<open>types.Int32\<close>, \<open>types.Int64\<close>) is null, unknown or known. The zero value of the Go
  type is null. The accessors \<open>ValueString\<close> and \<open>ValueBool\<close> read null and unknown as
  the zero value of the underlying type; the pointer accessors read null as \<open>nil\<close>.
\<close>

datatype 'a attr = Null | Unknown | Known 'a

fun ValueString :: "string attr \<Rightarrow> string" where
  "ValueString (Known s) = s"
| "ValueString _ = []"

fun ValueBool :: "bool attr \<Rightarrow> bool" where
  "ValueBool (Known b) = b"
| "ValueBool _ = False"

fun ValueInt64 :: "64 word attr \<Rightarrow> 64 word" where
  "ValueInt64 (Known n) = n"
| "ValueInt64 _ = 0"

fun ValueStringPointer :: "string attr \<Rightarrow> string option" where
  "ValueStringPointer Null = None"
| "ValueStringPointer Unknown = Some []"
| "ValueStringPointer (Known s) = Some s"

fun ValueBoolPointer :: "bool attr \<Rightarrow> bool option" where
  "ValueBoolPointer Null = None"
| "ValueBoolPointer Unknown = Some False"
| "ValueBoolPointer (Known b) = Some b"

fun ValueInt32Pointer :: "32 word attr \<Rightarrow> 32 word option" where
  "ValueInt32Pointer Null = None"
| "ValueInt32Pointer Unknown = Some 0"
| "ValueInt32Pointer (Known n) = Some n"

text \<open>\<open>types.BoolPointerValue\<close> and \<open>types.Int32PointerValue\<close>: \<open>nil\<close> becomes null.\<close>

fun PointerValue :: "'a option \<Rightarrow> 'a attr" where
  "PointerValue None = Null"
| "PointerValue (Some v) = Known v"

section \<open>Documents returned by the store\<close>

text \<open>
  A \<open>float64\<close> is a dyadic rational \<open>m * 2 ^ e\<close>, an infinity or a NaN. Every finite
  double is \<open>Finite m e\<close> for some mantissa and exponent (1.5 is \<open>Finite 3 (-1)\<close>,
  1.0 is \<open>Finite 1 0\<close>).
\<close>

datatype float64 = Finite int int | PosInf | NegInf | NaN

text \<open>
  The value kinds an entry of a \<open>bson.D\<close> can hold after \<open>bson.Unmarshal\<close>. A
  document keeps the order of its entries and may repeat a key: an association list.
\<close>

datatype bson_value =
    VInt32 "32 word"
  | VInt64 "64 word"
  | VDouble float64
  | VString string
  | VBool bool
  | VNull
  | VDocument "(string \<times> bson_value) list"
  | VArray "bson_value list"

type_synonym bson_D = "(string \<times> bson_value) list"

text \<open>\<open>bson.Raw\<close>: the bytes of an encoded document.\<close>

type_synonym raw = string

text \<open>
  The fraction of a finite double is discarded by Go's conversion \<open>int64(v)\<close>
  (truncation towards zero).
\<close>

definition trunc_float :: "int \<Rightarrow> int \<Rightarrow> int" where
  "trunc_float m e =
     (if 0 \<le> e then m * 2 ^ nat e else sgn m * (\<bar>m\<bar> div 2 ^ nat (- e)))"

section \<open>What the drivers call and do not define\<close>

text \<open>
  Library and platform behaviour used by the drivers: the extended-JSON parser and
  printer, the decoder of raw documents, and the value the platform gives the
  conversion \<open>int64(v)\<close> when the double is not representable (Go leaves that value to
  the implementation; the conversion never panics).
\<close>

record extern =
  UnmarshalExtJSON :: "string \<Rightarrow> string + raw"
  MarshalExtJSON :: "bson_D \<Rightarrow> string + string"
  Unmarshal :: "raw \<Rightarrow> string + bson_D"
  float64_unrepresentable :: "float64 \<Rightarrow> 64 word"

definition int64_of_float64 :: "extern \<Rightarrow> float64 \<Rightarrow> 64 word" where
  "int64_of_float64 x v =
     (case v of
        Finite m e \<Rightarrow>
          (let t = trunc_float m e
           in if - (2 ^ 63) \<le> t \<and> t < 2 ^ 63 then word_of_int t
              else float64_unrepresentable x v)
      | _ \<Rightarrow> float64_unrepresentable x v)"

section \<open>Diagnostics\<close>

text \<open>
  A diagnostic has a severity, a summary and a detail. A detail built by
  \<open>fmt.Sprintf\<close> with verbs other than \<open>%s\<close> is kept as the format and its arguments
  (\<open>Q\<close> for \<open>%q\<close>, \<open>T\<close> for \<open>%T\<close>, \<open>V\<close> for \<open>%v\<close>, \<open>D\<close> for \<open>%d\<close>); the rendering of
  those verbs belongs to the Go library.
\<close>

datatype fmt_arg = S string | Q string | T bson_value | V bson_value | D nat

datatype detail = Lit string | Sprintf string "fmt_arg list"

datatype diagnostic = ErrorDiag string detail | WarningDiag string detail

fun is_error :: "diagnostic \<Rightarrow> bool" where
  "is_error (ErrorDiag _ _) = True"
| "is_error (WarningDiag _ _) = False"

definition HasError :: "diagnostic list \<Rightarrow> bool" where
  "HasError ds = list_ex is_error ds"

section \<open>The store client\<close>

text \<open>
  \<open>mongo.IndexSpecification\<close>, with the fields the drivers read.
  \<open>ListSpecifications\<close> never returns a nil entry.
\<close>

record IndexSpecification =
  spec_Name :: string
  spec_KeysDocument :: raw
  spec_ExpireAfterSeconds :: "32 word option"
  spec_Sparse :: "bool option"
  spec_Unique :: "bool option"

text \<open>\<open>mongo.CollectionSpecification\<close>: \<open>Options\<close> is a raw document or nil.\<close>

record CollectionSpecification =
  cspec_Name :: string
  cspec_Options :: "bson_D option"

text \<open>\<open>mongo.IndexModel\<close> with its \<open>options.IndexOptions\<close>.\<close>

record IndexModel =
  im_Keys :: "(string \<times> 64 word) list"
  im_Unique :: "bool option"
  im_Sparse :: "bool option"
  im_ExpireAfterSeconds :: "32 word option"
  im_Name :: "string option"
  im_Background :: "bool option"
  im_PartialFilterExpression :: "raw option"

text \<open>
  \<open>options.CreateCollectionOptions\<close>: the validator is the document
  \<open>{"$jsonSchema": raw}\<close>, kept as its \<open>raw\<close> part.
\<close>

record CreateCollectionOptions =
  cco_Validator :: "raw option"
  cco_ValidationLevel :: "string option"
  cco_ValidationAction :: "string option"

text \<open>The values of an administrative command document passed to \<open>RunCommand\<close>.\<close>

datatype cmd_value = CString string | CEmptyDoc | CRaw raw

type_synonym command = "(string \<times> cmd_value) list"

text \<open>
  The store answers each call with an error text (\<open>Inl\<close>, or \<open>Some\<close> for a call that
  returns only an error) or a result. The first argument of every call is the database
  name, the second (for indexes) the collection name.
\<close>

record client =
  ListDatabaseNames :: "string \<Rightarrow> string + string list"
  ListCollectionNames :: "string \<Rightarrow> string + string list"
  ListCollectionSpecifications :: "string \<Rightarrow> string \<Rightarrow> string + CollectionSpecification list"
  CreateCollection :: "string \<Rightarrow> string \<Rightarrow> CreateCollectionOptions \<Rightarrow> string option"
  RunCommand :: "string \<Rightarrow> command \<Rightarrow> string option"
  ListSpecifications :: "string \<Rightarrow> string \<Rightarrow> string + IndexSpecification list"
  CreateOne :: "string \<Rightarrow> string \<Rightarrow> IndexModel \<Rightarrow> string + string"

text \<open>The calls a driver operation issued, in order.\<close>

datatype call =
    CallListDatabaseNames string
  | CallListCollectionNames string
  | CallListCollectionSpecifications string string
  | CallCreateCollection string string CreateCollectionOptions
  | CallRunCommand string command
  | CallListSpecifications string string
  | CallCreateOne string string IndexModel

text \<open>
  What an operation did to \<open>resp.State\<close>: nothing, \<open>RemoveResource\<close>, or \<open>Set\<close>.
\<close>

datatype 'm state_effect = Untouched | Removed | Set 'm

record 'm response =
  calls :: "call list"
  diags :: "diagnostic list"
  state :: "'m state_effect"

section \<open>Index driver\<close>

record indexKeyModel =
  Field :: "string attr"
  Order :: "64 word attr"

record index_model =
  ix_ID :: "string attr"
  ix_Database :: "string attr"
  ix_Collection :: "string attr"
  ix_Name :: "string attr"
  ix_Unique :: "bool attr"
  ix_Sparse :: "bool attr"
  ix_TTL :: "32 word attr"
  ix_Partial :: "string attr"
  ix_Background :: "bool attr"
  ix_Keys :: "indexKeyModel list"

text \<open>\<open>fmt.Sprintf("%s/%s/%s", database, collection, name)\<close>.\<close>

definition index_id :: "string \<Rightarrow> string \<Rightarrow> string \<Rightarrow> string" where
  "index_id d c n = d @ ''/'' @ c @ ''/'' @ n"

definition key_order_warning :: "string \<Rightarrow> bson_value \<Rightarrow> diagnostic" where
  "key_order_warning k v =
     WarningDiag ''Non-numeric index key order encountered''
       (Sprintf ''Field %q has unsupported type %T (value %v). Skipping.'' [Q k, T v, V v])"

text \<open>
  The loop over \<open>keysDoc\<close> of \<open>Resource.Read\<close> (and, verbatim, of \<open>DataSource.Read\<close>):
  the type switch on the entry's value, with the keys and the diagnostics built so far.
\<close>

fun decodeKeyOrder ::
  "extern \<Rightarrow> bson_D \<Rightarrow> indexKeyModel list \<Rightarrow> diagnostic list
     \<Rightarrow> indexKeyModel list \<times> diagnostic list" where
  "decodeKeyOrder x [] keys ds = (keys, ds)"
| "decodeKeyOrder x ((k, v) # es) keys ds =
     (case v of
        VInt32 n \<Rightarrow>
          decodeKeyOrder x es (keys @ [\<lparr>Field = Known k, Order = Known (scast n)\<rparr>]) ds
      | VInt64 n \<Rightarrow>
          decodeKeyOrder x es (keys @ [\<lparr>Field = Known k, Order = Known n\<rparr>]) ds
      | VDouble f \<Rightarrow>
          decodeKeyOrder x es
            (keys @ [\<lparr>Field = Known k, Order = Known (int64_of_float64 x f)\<rparr>]) ds
      | _ \<Rightarrow> decodeKeyOrder x es keys (ds @ [key_order_warning k v]))"

definition Index_Read :: "extern \<Rightarrow> client \<Rightarrow> index_model \<Rightarrow> index_model response" where
  "Index_Read x cl st =
     (let db = ValueString (ix_Database st);
          coll = ValueString (ix_Collection st);
          nm = ValueString (ix_Name st);
          cs = [CallListSpecifications db coll]
      in case ListSpecifications cl db coll of
           Inl err \<Rightarrow>
             \<lparr>calls = cs, diags = [ErrorDiag ''Failed to list index'' (Lit err)],
              state = Untouched\<rparr>
         | Inr indexes \<Rightarrow>
             (let s1 = (if \<not> list_ex (\<lambda>i. spec_Name i = nm) indexes
                        then Removed else Untouched)
              in case find (\<lambda>i. spec_Name i = nm) indexes of
                   None \<Rightarrow>
                     \<lparr>calls = cs, diags = [ErrorDiag ''Index not found'' (Lit [])],
                      state = s1\<rparr>
                 | Some index \<Rightarrow>
                     (case Unmarshal x (spec_KeysDocument index) of
                        Inl err \<Rightarrow>
                          \<lparr>calls = cs,
                           diags = [ErrorDiag ''Failed to decode index keys'' (Lit err)],
                           state = s1\<rparr>
                      | Inr keysDoc \<Rightarrow>
                          (case decodeKeyOrder x keysDoc [] [] of
                             (keys, ds) \<Rightarrow>
                               \<lparr>calls = cs, diags = ds,
                                state = Set (st\<lparr>ix_Unique := PointerValue (spec_Unique index),
                                               ix_Sparse := PointerValue (spec_Sparse index),
                                               ix_TTL := PointerValue (spec_ExpireAfterSeconds index),
                                               ix_Keys := keys,
                                               ix_ID := Known (index_id db coll nm)\<rparr>)\<rparr>))))"

text \<open>
  The read-only lookup \<open>DataSource.Read\<close> of the index data source: an absent index is
  an error, and the keys are decoded by the same loop.
\<close>

record index_ds_model =
  ds_ID :: "string attr"
  ds_Database :: "string attr"
  ds_Collection :: "string attr"
  ds_Name :: "string attr"
  ds_Unique :: "bool attr"
  ds_Sparse :: "bool attr"
  ds_TTL :: "32 word attr"
  ds_Keys :: "indexKeyModel list"

definition Index_DataSource_Read ::
  "extern \<Rightarrow> client \<Rightarrow> index_ds_model \<Rightarrow> index_ds_model response" where
  "Index_DataSource_Read x cl plan =
     (let db = ValueString (ds_Database plan);
          coll = ValueString (ds_Collection plan);
          nm = ValueString (ds_Name plan);
          cs = [CallListSpecifications db coll]
      in case ListSpecifications cl db coll of
           Inl err \<Rightarrow>
             \<lparr>calls = cs,
              diags = [ErrorDiag ''Failed to list index specifications'' (Lit err)],
              state = Untouched\<rparr>
         | Inr indexes \<Rightarrow>
             (case find (\<lambda>i. spec_Name i = nm) indexes of
                None \<Rightarrow>
                  \<lparr>calls = cs, diags = [ErrorDiag ''Index not found'' (Lit [])],
                   state = Untouched\<rparr>
              | Some index \<Rightarrow>
                  (case Unmarshal x (spec_KeysDocument index) of
                     Inl err \<Rightarrow>
                       \<lparr>calls = cs,
                        diags = [ErrorDiag ''Failed to decode index keys'' (Lit err)],
                        state = Untouched\<rparr>
                   | Inr keysDoc \<Rightarrow>
                       (case decodeKeyOrder x keysDoc [] [] of
                          (keys, ds) \<Rightarrow>
                            \<lparr>calls = cs, diags = ds,
                             state = Set (plan\<lparr>ds_Unique := PointerValue (spec_Unique index),
                                              ds_TTL := PointerValue (spec_ExpireAfterSeconds index),
                                              ds_Keys := keys,
                                              ds_ID := Known (index_id db coll nm)\<rparr>)\<rparr>))))"

text \<open>
  The decoded key order in the words of the specification: the numeric entries, in the
  order of the document, each with its value coerced to a signed 64-bit direction; and
  one warning for every other entry.
\<close>

fun is_numeric :: "bson_value \<Rightarrow> bool" where
  "is_numeric (VInt32 _) = True"
| "is_numeric (VInt64 _) = True"
| "is_numeric (VDouble _) = True"
| "is_numeric _ = False"

fun direction :: "extern \<Rightarrow> bson_value \<Rightarrow> 64 word" where
  "direction x (VInt32 n) = scast n"
| "direction x (VInt64 n) = n"
| "direction x (VDouble f) = int64_of_float64 x f"
| "direction x _ = 0"

definition spec_keys :: "extern \<Rightarrow> bson_D \<Rightarrow> indexKeyModel list" where
  "spec_keys x doc =
     map (\<lambda>e. \<lparr>Field = Known (fst e), Order = Known (direction x (snd e))\<rparr>)
       (filter (\<lambda>e. is_numeric (snd e)) doc)"

definition spec_warnings :: "bson_D \<Rightarrow> diagnostic list" where
  "spec_warnings doc =
     map (\<lambda>e. key_order_warning (fst e) (snd e)) (filter (\<lambda>e. \<not> is_numeric (snd e)) doc)"

definition index_model_of :: "index_model \<Rightarrow> raw option \<Rightarrow> IndexModel" where
  "index_model_of plan partial =
     \<lparr>im_Keys = map (\<lambda>k. (ValueString (Field k), ValueInt64 (Order k))) (ix_Keys plan),
      im_Unique = ValueBoolPointer (ix_Unique plan),
      im_Sparse = ValueBoolPointer (ix_Sparse plan),
      im_ExpireAfterSeconds = ValueInt32Pointer (ix_TTL plan),
      im_Name = ValueStringPointer (ix_Name plan),
      im_Background = ValueBoolPointer (ix_Background plan),
      im_PartialFilterExpression = partial\<rparr>"

text \<open>
  The tail of \<open>Resource.Create\<close>, from the call of \<open>CreateOne\<close> on, with the calls
  issued before it.
\<close>

definition Index_Create_issue ::
  "client \<Rightarrow> index_model \<Rightarrow> call list \<Rightarrow> IndexModel \<Rightarrow> index_model response" where
  "Index_Create_issue cl plan cs idx =
     (let db = ValueString (ix_Database plan);
          coll = ValueString (ix_Collection plan)
      in case CreateOne cl db coll idx of
           Inl err \<Rightarrow>
             \<lparr>calls = cs @ [CallCreateOne db coll idx],
              diags = [ErrorDiag ''create index failed'' (Lit err)],
              state = Untouched\<rparr>
         | Inr name \<Rightarrow>
             \<lparr>calls = cs @ [CallCreateOne db coll idx],
              diags = [],
              state = Set (plan\<lparr>ix_ID := Known (index_id db coll name)\<rparr>)\<rparr>)"

definition Index_Create :: "extern \<Rightarrow> client \<Rightarrow> index_model \<Rightarrow> index_model response" where
  "Index_Create x cl plan =
     (let db = ValueString (ix_Database plan);
          coll = ValueString (ix_Collection plan);
          nm = ValueString (ix_Name plan);
          cs = [CallListSpecifications db coll]
      in case ListSpecifications cl db coll of
           Inl err \<Rightarrow>
             \<lparr>calls = cs, diags = [ErrorDiag ''List indexes failed'' (Lit err)],
              state = Untouched\<rparr>
         | Inr specifications \<Rightarrow>
             if list_ex (\<lambda>specification. spec_Name specification = nm) specifications
             then \<lparr>calls = cs,
                   diags = [ErrorDiag ''Index already exists''
                              (Lit (''An index named '' @ nm @ '' already exists.''))],
                   state = Untouched\<rparr>
             else if ValueString (ix_Partial plan) \<noteq> []
             then (case UnmarshalExtJSON x (ValueString (ix_Partial plan)) of
                     Inl err \<Rightarrow>
                       \<lparr>calls = cs,
                        diags = [ErrorDiag ''invalid partial_filter_expression JSON'' (Lit err)],
                        state = Untouched\<rparr>
                   | Inr r \<Rightarrow> Index_Create_issue cl plan cs (index_model_of plan (Some r)))
             else Index_Create_issue cl plan cs (index_model_of plan None))"

text \<open>\<open>Resource.Update\<close> of the index: the plan becomes the state.\<close>

definition Index_Update :: "client \<Rightarrow> index_model \<Rightarrow> index_model response" where
  "Index_Update cl plan = \<lparr>calls = [], diags = [], state = Set plan\<rparr>"

section \<open>Identity strings\<close>

text \<open>
  \<open>strings.TrimSpace\<close> removes the white space runes (\<open>unicode.IsSpace\<close>) from both
  ends of a string. A Go string is a sequence of bytes; a rune is white space exactly when
  its UTF-8 encoding is one of the following (U+0009 to U+000D, U+0020, U+0085, U+00A0,
  U+1680, U+2000 to U+200A, U+2028, U+2029, U+202F, U+205F, U+3000).
\<close>

definition space_runes :: "string list" where
  "space_runes =
     [[CHR 0x09], [CHR 0x0A], [CHR 0x0B], [CHR 0x0C], [CHR 0x0D], [CHR 0x20],
      [CHR 0xC2, CHR 0x85], [CHR 0xC2, CHR 0xA0],
      [CHR 0xE1, CHR 0x9A, CHR 0x80],
      [CHR 0xE2, CHR 0x80, CHR 0x80], [CHR 0xE2, CHR 0x80, CHR 0x81],
      [CHR 0xE2, CHR 0x80, CHR 0x82], [CHR 0xE2, CHR 0x80, CHR 0x83],
      [CHR 0xE2, CHR 0x80, CHR 0x84], [CHR 0xE2, CHR 0x80, CHR 0x85],
      [CHR 0xE2, CHR 0x80, CHR 0x86], [CHR 0xE2, CHR 0x80, CHR 0x87],
      [CHR 0xE2, CHR 0x80, CHR 0x88], [CHR 0xE2, CHR 0x80, CHR 0x89],
      [CHR 0xE2, CHR 0x80, CHR 0x8A], [CHR 0xE2, CHR 0x80, CHR 0xA8],
      [CHR 0xE2, CHR 0x80, CHR 0xA9], [CHR 0xE2, CHR 0x80, CHR 0xAF],
      [CHR 0xE2, CHR 0x81, CHR 0x9F], [CHR 0xE3, CHR 0x80, CHR 0x80]]"

text \<open>The length of the rune of \<open>rs\<close> that \<open>s\<close> starts with, 0 when there is none.\<close>

definition rune_len :: "string list \<Rightarrow> string \<Rightarrow> nat" where
  "rune_len rs s = (case find (\<lambda>p. prefix p s) rs of None \<Rightarrow> 0 | Some p \<Rightarrow> length p)"

fun TrimLeftFunc :: "string list \<Rightarrow> string \<Rightarrow> string" where
  "TrimLeftFunc rs [] = []"
| "TrimLeftFunc rs (c # cs) =
     (if rune_len rs (c # cs) = 0 then c # cs
      else TrimLeftFunc rs (drop (rune_len rs (c # cs) - 1) cs))"

text \<open>Trimming on the right is trimming the reversed string of the reversed runes.\<close>

definition TrimRightFunc :: "string list \<Rightarrow> string \<Rightarrow> string" where
  "TrimRightFunc rs s = rev (TrimLeftFunc (map rev rs) (rev s))"

definition TrimSpace :: "string \<Rightarrow> string" where
  "TrimSpace s = TrimRightFunc space_runes (TrimLeftFunc space_runes s)"

text \<open>
  \<open>strings.SplitN(s, sep, n)\<close> for a separator of one byte and \<open>n \<ge> 0\<close>: at most \<open>n\<close>
  substrings, the last one the unsplit remainder.
\<close>

fun SplitN :: "string \<Rightarrow> char \<Rightarrow> nat \<Rightarrow> string list" where
  "SplitN s sep 0 = []"
| "SplitN s sep (Suc 0) = [s]"
| "SplitN s sep (Suc (Suc n)) =
     (if sep \<in> set s
      then takeWhile (\<lambda>c. c \<noteq> sep) s
             # SplitN (tl (dropWhile (\<lambda>c. c \<noteq> sep) s)) sep (Suc n)
      else [s])"

text \<open>\<open>Resource.ImportState\<close> of the index: the zero model with the identity's parts.\<close>

definition index_zero :: index_model where
  "index_zero =
     \<lparr>ix_ID = Null, ix_Database = Null, ix_Collection = Null, ix_Name = Null,
      ix_Unique = Null, ix_Sparse = Null, ix_TTL = Null, ix_Partial = Null,
      ix_Background = Null, ix_Keys = []\<rparr>"

definition Index_ImportState :: "string \<Rightarrow> index_model response" where
  "Index_ImportState req_ID =
     (let id = TrimSpace req_ID
      in if id = []
         then \<lparr>calls = [],
               diags = [ErrorDiag ''Empty import ID''
                          (Lit (''Expected format: 'database/collection/index'' @ [CHR 0x27]))],
               state = Untouched\<rparr>
         else (let parts = SplitN id CHR ''/'' 3
               in if length parts \<noteq> 3 \<or> parts ! 0 = [] \<or> parts ! 1 = [] \<or> parts ! 2 = []
                  then \<lparr>calls = [],
                        diags = [ErrorDiag ''Invalid import ID''
                                   (Lit (''Expected 'database/collection/index', got '' @ id))],
                        state = Untouched\<rparr>
                  else \<lparr>calls = [], diags = [],
                        state = Set (index_zero\<lparr>ix_ID := Known id,
                                                 ix_Name := Known (parts ! 2),
                                                 ix_Collection := Known (parts ! 1),
                                                 ix_Database := Known (parts ! 0)\<rparr>)\<rparr>))"

section \<open>Collection driver\<close>

record collection_model =
  co_ID :: "string attr"
  co_Database :: "string attr"
  co_Name :: "string attr"
  co_Validator :: "string attr"
  co_ValidationLevel :: "string attr"
  co_ValidationAction :: "string attr"

text \<open>\<open>fmt.Sprintf("%s/%s", database, name)\<close>.\<close>

definition collection_id :: "string \<Rightarrow> string \<Rightarrow> string" where
  "collection_id d n = d @ ''/'' @ n"

definition Collection_Create_issue ::
  "client \<Rightarrow> collection_model \<Rightarrow> raw option \<Rightarrow> collection_model response" where
  "Collection_Create_issue cl plan validator =
     (let db = ValueString (co_Database plan);
          nm = ValueString (co_Name plan);
          opts = \<lparr>cco_Validator = validator,
                  cco_ValidationLevel = ValueStringPointer (co_ValidationLevel plan),
                  cco_ValidationAction = ValueStringPointer (co_ValidationAction plan)\<rparr>
      in case CreateCollection cl db nm opts of
           Some err \<Rightarrow>
             \<lparr>calls = [CallCreateCollection db nm opts],
              diags = [ErrorDiag ''create collection failed'' (Lit err)],
              state = Untouched\<rparr>
         | None \<Rightarrow>
             \<lparr>calls = [CallCreateCollection db nm opts], diags = [],
              state = Set (plan\<lparr>co_ID := Known (collection_id db nm)\<rparr>)\<rparr>)"

definition Collection_Create ::
  "extern \<Rightarrow> client \<Rightarrow> collection_model \<Rightarrow> collection_model response" where
  "Collection_Create x cl plan =
     (if ValueString (co_Validator plan) \<noteq> []
      then (case UnmarshalExtJSON x (ValueString (co_Validator plan)) of
              Inl err \<Rightarrow>
                \<lparr>calls = [], diags = [ErrorDiag ''invalid validator JSON'' (Lit err)],
                 state = Untouched\<rparr>
            | Inr r \<Rightarrow> Collection_Create_issue cl plan (Some r))
      else Collection_Create_issue cl plan None)"

text \<open>
  \<open>Options.Lookup(key)\<close>: the first element with that key. The three option fields of
  \<open>Resource.Read\<close>, each from the type of the value found.
\<close>

definition read_validator ::
  "extern \<Rightarrow> bson_D \<Rightarrow> string attr \<Rightarrow> string attr \<times> diagnostic list" where
  "read_validator x opts old =
     (case map_of opts ''validator'' of
        Some (VDocument doc) \<Rightarrow>
          (case MarshalExtJSON x doc of
             Inl err \<Rightarrow>
               (old, [WarningDiag ''Failed to encode validator''
                        (Lit (''validator extjson encode error: '' @ err))])
           | Inr jsonBytes \<Rightarrow> (Known jsonBytes, []))
      | _ \<Rightarrow> (Null, []))"

definition read_string_option :: "bson_D \<Rightarrow> string \<Rightarrow> string attr" where
  "read_string_option opts key =
     (case map_of opts key of Some (VString s) \<Rightarrow> Known s | _ \<Rightarrow> Null)"

definition Collection_Read ::
  "extern \<Rightarrow> client \<Rightarrow> collection_model \<Rightarrow> collection_model response" where
  "Collection_Read x cl st =
     (let db = ValueString (co_Database st);
          nm = ValueString (co_Name st);
          cs = [CallListCollectionSpecifications db nm]
      in case ListCollectionSpecifications cl db nm of
           Inl err \<Rightarrow>
             \<lparr>calls = cs,
              diags = [ErrorDiag ''Error reading collection''
                         (Lit (''Failed to list collections: '' @ err))],
              state = Untouched\<rparr>
         | Inr collections \<Rightarrow>
             if length collections \<noteq> 1
             then \<lparr>calls = cs,
                   diags = [ErrorDiag ''Collection not found''
                              (Sprintf ''%d'' [D (length collections)])],
                   state = Untouched\<rparr>
             else (case cspec_Options (collections ! 0) of
                     Some opts \<Rightarrow>
                       (case read_validator x opts (co_Validator st) of
                          (v, ds) \<Rightarrow>
                            \<lparr>calls = cs, diags = ds,
                             state = Set (st\<lparr>co_Validator := v,
                                            co_ValidationLevel :=
                                              read_string_option opts ''validationLevel'',
                                            co_ValidationAction :=
                                              read_string_option opts ''validationAction'',
                                            co_ID := Known (collection_id db nm)\<rparr>)\<rparr>)
                   | None \<Rightarrow>
                       \<lparr>calls = cs, diags = [],
                        state = Set (st\<lparr>co_Validator := Null,
                                       co_ValidationLevel := Null,
                                       co_ValidationAction := Null,
                                       co_ID := Known (collection_id db nm)\<rparr>)\<rparr>))"

text \<open>
  \<open>Resource.Update\<close>: the command starts as \<open>{collMod: name}\<close>; each of the three
  comparisons appends its field. The validator's field is the empty document when the
  plan's validator is empty, the parsed document otherwise (\<open>Inl\<close>: the parse error).
\<close>

definition validator_field ::
  "extern \<Rightarrow> collection_model \<Rightarrow> collection_model \<Rightarrow> string + command" where
  "validator_field x plan st =
     (if ValueString (co_Validator plan) \<noteq> ValueString (co_Validator st)
      then (if ValueString (co_Validator plan) = []
            then Inr [(''validator'', CEmptyDoc)]
            else (case UnmarshalExtJSON x (ValueString (co_Validator plan)) of
                    Inl err \<Rightarrow> Inl err
                  | Inr r \<Rightarrow> Inr [(''validator'', CRaw r)]))
      else Inr [])"

definition level_field :: "collection_model \<Rightarrow> collection_model \<Rightarrow> command" where
  "level_field plan st =
     (if ValueString (co_ValidationLevel plan) \<noteq> ValueString (co_ValidationLevel st)
      then [(''validationLevel'', CString (ValueString (co_ValidationLevel plan)))]
      else [])"

definition action_field :: "collection_model \<Rightarrow> collection_model \<Rightarrow> command" where
  "action_field plan st =
     (if ValueString (co_ValidationAction plan) \<noteq> ValueString (co_ValidationAction st)
      then [(''validationAction'', CString (ValueString (co_ValidationAction plan)))]
      else [])"

definition Collection_Update ::
  "extern \<Rightarrow> client \<Rightarrow> collection_model \<Rightarrow> collection_model \<Rightarrow> collection_model response"
  where
  "Collection_Update x cl plan st =
     (let db = ValueString (co_Database plan)
      in case validator_field x plan st of
           Inl err \<Rightarrow>
             \<lparr>calls = [], diags = [ErrorDiag ''invalid validator JSON'' (Lit err)],
              state = Untouched\<rparr>
         | Inr vf \<Rightarrow>
             (let cmd = [(''collMod'', CString (ValueString (co_Name plan)))]
                          @ vf @ level_field plan st @ action_field plan st
              in if length cmd > 1
                 then (case RunCommand cl db cmd of
                         Some err \<Rightarrow>
                           \<lparr>calls = [CallRunCommand db cmd],
                            diags = [ErrorDiag ''collMod failed'' (Lit err)],
                            state = Untouched\<rparr>
                       | None \<Rightarrow>
                           \<lparr>calls = [CallRunCommand db cmd], diags = [], state = Set plan\<rparr>)
                 else \<lparr>calls = [], diags = [], state = Set plan\<rparr>))"

definition collection_zero :: collection_model where
  "collection_zero =
     \<lparr>co_ID = Null, co_Database = Null, co_Name = Null, co_Validator = Null,
      co_ValidationLevel = Null, co_ValidationAction = Null\<rparr>"

definition Collection_ImportState :: "string \<Rightarrow> collection_model response" where
  "Collection_ImportState req_ID =
     (let id = TrimSpace req_ID
      in if id = []
         then \<lparr>calls = [],
               diags = [ErrorDiag ''Empty import ID''
                          (Lit (''Expected format: 'database/collection'' @ [CHR 0x27]))],
               state = Untouched\<rparr>
         else (let parts = SplitN id CHR ''/'' 2
               in if length parts \<noteq> 2 \<or> parts ! 0 = [] \<or> parts ! 1 = []
                  then \<lparr>calls = [],
                        diags = [ErrorDiag ''Invalid import ID''
                                   (Lit (''Expected 'database/collection', got '' @ id))],
                        state = Untouched\<rparr>
                  else \<lparr>calls = [], diags = [],
                        state = Set (collection_zero\<lparr>co_ID := Known id,
                                                      co_Name := Known (parts ! 1),
                                                      co_Database := Known (parts ! 0)\<rparr>)\<rparr>))"

section \<open>Database driver\<close>

record database_model =
  db_ID :: "string attr"
  db_Name :: "string attr"
  db_KeepPlaceholder :: "bool attr"

definition tfPlaceholderColl :: string where
  "tfPlaceholderColl = ''__tf_placeholder''"

text \<open>
  \<open>Resource.Create\<close>. The error of the placeholder's \<open>RunCommand\<close> is assigned to the
  blank identifier: the call is issued and its outcome read by nothing.
\<close>

definition Database_Create :: "client \<Rightarrow> database_model \<Rightarrow> database_model response" where
  "Database_Create cl plan =
     (let nm = ValueString (db_Name plan);
          cs = [CallListDatabaseNames nm]
      in case ListDatabaseNames cl nm of
           Inl err \<Rightarrow>
             \<lparr>calls = cs, diags = [ErrorDiag ''List databases failed'' (Lit err)],
              state = Untouched\<rparr>
         | Inr dbs \<Rightarrow>
             if length dbs > 0
             then \<lparr>calls = cs,
                   diags = [ErrorDiag ''Database already exists''
                              (Lit (''A database named '' @ nm @ '' already exists.''))],
                   state = Untouched\<rparr>
             else (let cmd = [(''create'', CString tfPlaceholderColl)];
                       cs' = (if ValueBool (db_KeepPlaceholder plan)
                              then (let _ = RunCommand cl nm cmd in cs @ [CallRunCommand nm cmd])
                              else cs)
                   in \<lparr>calls = cs', diags = [], state = Set (plan\<lparr>db_ID := Known nm\<rparr>)\<rparr>))"

definition Database_Read :: "client \<Rightarrow> database_model \<Rightarrow> database_model response" where
  "Database_Read cl st =
     (let nm = ValueString (db_Name st);
          cs = [CallListCollectionNames nm]
      in case ListCollectionNames cl nm of
           Inl err \<Rightarrow>
             \<lparr>calls = cs, diags = [ErrorDiag ''list collections failed'' (Lit err)],
              state = Untouched\<rparr>
         | Inr names \<Rightarrow>
             if length names = 0
             then \<lparr>calls = cs, diags = [], state = Removed\<rparr>
             else \<lparr>calls = cs, diags = [],
                   state = Set (st\<lparr>db_ID := Known nm,
                                  db_KeepPlaceholder :=
                                    Known (tfPlaceholderColl \<in> set names)\<rparr>)\<rparr>)"

definition Database_Update :: "client \<Rightarrow> database_model \<Rightarrow> database_model response" where
  "Database_Update cl plan =
     (let nm = ValueString (db_Name plan);
          cmd = (if ValueBool (db_KeepPlaceholder plan)
                 then [(''create'', CString tfPlaceholderColl)]
                 else [(''drop'', CString tfPlaceholderColl)]);
          _ = RunCommand cl nm cmd
      in \<lparr>calls = [CallRunCommand nm cmd], diags = [], state = Set plan\<rparr>)"

definition database_zero :: database_model where
  "database_zero = \<lparr>db_ID = Null, db_Name = Null, db_KeepPlaceholder = Null\<rparr>"

definition Database_ImportState :: "string \<Rightarrow> database_model response" where
  "Database_ImportState req_ID =
     (let id = TrimSpace req_ID
      in if id = []
         then \<lparr>calls = [],
               diags = [ErrorDiag ''Empty import ID'' (Lit ''Expected database name'')],
               state = Untouched\<rparr>
         else \<lparr>calls = [], diags = [],
               state = Set (database_zero\<lparr>db_ID := Known id, db_Name := Known id\<rparr>)\<rparr>)"

section \<open>A concrete store\<close>

text \<open>
  A store with the database \<open>shop\<close>, its collection \<open>orders\<close> and two indexes on it,
  whose administrative commands all fail; and a library whose parsers succeed. The
  unrepresentable conversion gives the smallest \<open>int64\<close>, as on amd64.
\<close>

definition ex_extern :: extern where
  "ex_extern =
     \<lparr>UnmarshalExtJSON = (\<lambda>s. Inr s),
      MarshalExtJSON = (\<lambda>d. Inr ''{}''),
      Unmarshal = (\<lambda>r. if r = ''by_a_keys''
                         then Inr [(''a'', VInt32 1), (''loc'', VString ''2dsphere''),
                                   (''b'', VDouble (Finite 3 (- 1)))]
                         else Inr [(''_id'', VInt32 1)]),
      float64_unrepresentable = (\<lambda>f. 0x8000000000000000)\<rparr>"

definition ex_specs :: "IndexSpecification list" where
  "ex_specs =
     [\<lparr>spec_Name = ''_id_'', spec_KeysDocument = ''id_keys'',
       spec_ExpireAfterSeconds = None, spec_Sparse = None, spec_Unique = None\<rparr>,
      \<lparr>spec_Name = ''by_a'', spec_KeysDocument = ''by_a_keys'',
       spec_ExpireAfterSeconds = None, spec_Sparse = None, spec_Unique = Some True\<rparr>]"

definition ex_client :: client where
  "ex_client =
     \<lparr>ListDatabaseNames = (\<lambda>n. Inr (if n = ''shop'' then [''shop''] else [])),
      ListCollectionNames =
        (\<lambda>d. Inr (if d = ''shop'' then [''orders'', ''__tf_placeholder''] else [])),
      ListCollectionSpecifications =
        (\<lambda>d n. Inr (if d = ''shop'' \<and> n = ''orders''
                      then [\<lparr>cspec_Name = ''orders'', cspec_Options = None\<rparr>] else [])),
      CreateCollection = (\<lambda>d n opts. Some ''not authorized''),
      RunCommand = (\<lambda>d cmd. Some ''not authorized''),
      ListSpecifications =
        (\<lambda>d c. if d = ''shop'' \<and> c = ''orders'' then Inr ex_specs else Inr []),
      CreateOne =
        (\<lambda>d c idx. Inr (case im_Name idx of Some n \<Rightarrow> n | None \<Rightarrow> ''generated''))\<rparr>"

definition ex_index :: "string \<Rightarrow> string \<Rightarrow> string \<Rightarrow> index_model" where
  "ex_index d c n =
     index_zero\<lparr>ix_Database := Known d, ix_Collection := Known c, ix_Name := Known n,
                 ix_Keys := [\<lparr>Field = Known ''a'', Order = Known 1\<rparr>]\<rparr>"

definition ex_index_ds :: index_ds_model where
  "ex_index_ds =
     \<lparr>ds_ID = Null, ds_Database = Known ''shop'', ds_Collection = Known ''orders'',
      ds_Name = Known ''by_a'', ds_Unique = Null, ds_Sparse = Null, ds_TTL = Null,
      ds_Keys = []\<rparr>"

definition ex_collection :: "string \<Rightarrow> string \<Rightarrow> string \<Rightarrow> string \<Rightarrow> collection_model" where
  "ex_collection d n v lvl =
     collection_zero\<lparr>co_Database := Known d, co_Name := Known n,
                      co_Validator := Known v, co_ValidationLevel := Known lvl\<rparr>"

definition ex_database :: "string \<Rightarrow> bool \<Rightarrow> database_model" where
  "ex_database n keep = database_zero\<lparr>db_Name := Known n, db_KeepPlaceholder := Known keep\<rparr>"

section \<open>The collection update in the words of the specification\<close>

text \<open>
  The fields among validator, validationLevel and validationAction whose desired value
  differs from the recorded one, in the order of the command. The value of a field is
  what \<open>ValueString\<close> reads.
\<close>

definition changed_fields :: "collection_model \<Rightarrow> collection_model \<Rightarrow> string list" where
  "changed_fields plan st =
     (if ValueString (co_Validator plan) \<noteq> ValueString (co_Validator st)
      then [''validator''] else [])
     @ (if ValueString (co_ValidationLevel plan) \<noteq> ValueString (co_ValidationLevel st)
        then [''validationLevel''] else [])
     @ (if ValueString (co_ValidationAction plan) \<noteq> ValueString (co_ValidationAction st)
        then [''validationAction''] else [])"

section \<open>White space at the ends of a string\<close>

text \<open>
  A string starts (ends) with white space when one of the white space runes is a prefix
  (a suffix) of it.
\<close>

definition leading_space :: "string \<Rightarrow> bool" where
  "leading_space s = list_ex (\<lambda>p. prefix p s) space_runes"

definition trailing_space :: "string \<Rightarrow> bool" where
  "trailing_space s = list_ex (\<lambda>p. suffix p s) space_runes"

text \<open>The diagnostics by which an import rejects an identity.\<close>

fun invalid_identity :: "diagnostic \<Rightarrow> bool" where
  "invalid_identity (ErrorDiag summary _) =
     (summary = ''Empty import ID'' \<or> summary = ''Invalid import ID'')"
| "invalid_identity (WarningDiag _ _) = False"

section \<open>Decoding the key order\<close>

lemma decodeKeyOrder_acc:
  "decodeKeyOrder x doc keys ds = (keys @ spec_keys x doc, ds @ spec_warnings doc)"
proof (induction doc arbitrary: keys ds)
  case Nil
  show ?case by (simp add: spec_keys_def spec_warnings_def)
next
  case (Cons e es)
  obtain k v where e: "e = (k, v)" by (cases e)
  show ?case
    by (cases v) (simp_all add: e Cons.IH spec_keys_def spec_warnings_def)
qed

lemma spec_warnings_no_error: "\<not> HasError (spec_warnings doc)"
  by (induction doc) (auto simp: HasError_def spec_warnings_def key_order_warning_def)

lemma spec_keys_append: "spec_keys x (a @ b) = spec_keys x a @ spec_keys x b"
  by (simp add: spec_keys_def)

lemma spec_warnings_append: "spec_warnings (a @ b) = spec_warnings a @ spec_warnings b"
  by (simp add: spec_warnings_def)

lemma int_div_floor_bounds:
  fixes a p :: int
  assumes "0 < p" and "\<not> p dvd a"
  shows "a div p * p < a" and "a < (a div p + 1) * p"
proof -
  define q where "q = a div p"
  define r where "r = a mod p"
  have a: "a = q * p + r"
    unfolding q_def r_def by (rule div_mult_mod_eq [symmetric])
  have "r \<noteq> 0"
    unfolding r_def using assms(2) by (simp add: dvd_eq_mod_eq_0)
  moreover have "0 \<le> r" and r: "r < p"
    unfolding r_def using assms(1) by simp_all
  ultimately have "0 < r" by linarith
  then show "a div p * p < a"
    unfolding q_def [symmetric] using a by linarith
  have "(q + 1) * p = q * p + p" by (simp add: distrib_right)
  then show "a < (a div p + 1) * p"
    unfolding q_def [symmetric] using a r by linarith
qed

lemma int_div_less_bound:
  fixes a p c :: int
  assumes "0 < p" and "a < p * c"
  shows "a div p < c"
proof -
  define q where "q = a div p"
  define r where "r = a mod p"
  have a: "a = q * p + r"
    unfolding q_def r_def by (rule div_mult_mod_eq [symmetric])
  have "0 \<le> r"
    unfolding r_def using assms(1) by simp
  then have "q * p < c * p"
    using a assms(2) by (simp add: mult.commute)
  then show ?thesis
    unfolding q_def [symmetric] using assms(1) by (simp only: mult_less_cancel_right_pos)
qed


lemma abs_trunc_float:
  assumes "e < 0"
  shows "\<bar>trunc_float m e\<bar> = \<bar>m\<bar> div 2 ^ nat (- e)"
proof (cases "m = 0")
  case True
  then show ?thesis using assms by (simp add: trunc_float_def)
next
  case False
  have "0 \<le> \<bar>m\<bar> div 2 ^ nat (- e)"
    by (simp add: pos_imp_zdiv_nonneg_iff)
  then show ?thesis
    using assms False by (simp add: trunc_float_def abs_mult abs_sgn_eq)
qed

lemma trunc_float_bounds:
  assumes "e < 0" and "\<not> 2 ^ nat (- e) dvd m"
  shows "\<bar>trunc_float m e\<bar> * 2 ^ nat (- e) < \<bar>m\<bar>"
    and "\<bar>m\<bar> < (\<bar>trunc_float m e\<bar> + 1) * 2 ^ nat (- e)"
    and "trunc_float m e = sgn m * \<bar>trunc_float m e\<bar>"
proof -
  let ?p = "(2::int) ^ nat (- e)"
  have p: "0 < ?p" by simp
  have t: "\<bar>trunc_float m e\<bar> = \<bar>m\<bar> div ?p"
    using assms(1) by (rule abs_trunc_float)
  have nd: "\<not> ?p dvd \<bar>m\<bar>"
    using assms(2) by simp
  show "\<bar>trunc_float m e\<bar> * ?p < \<bar>m\<bar>"
    unfolding t using p nd by (rule int_div_floor_bounds)
  show "\<bar>m\<bar> < (\<bar>trunc_float m e\<bar> + 1) * ?p"
    unfolding t using p nd by (rule int_div_floor_bounds)
  show "trunc_float m e = sgn m * \<bar>trunc_float m e\<bar>"
    unfolding t using assms(1) by (simp add: trunc_float_def)
qed

lemma trunc_float_in_range:
  assumes "e < 0" and "\<bar>m\<bar> < 2 ^ 63 * 2 ^ nat (- e)"
  shows "- (2 ^ 63) \<le> trunc_float m e \<and> trunc_float m e < 2 ^ 63"
proof -
  let ?p = "(2::int) ^ nat (- e)"
  have p: "0 < ?p" by simp
  have "\<bar>m\<bar> < ?p * 2 ^ 63"
    using assms(2) by (simp only: mult.commute)
  with p have "\<bar>m\<bar> div ?p < 2 ^ 63"
    by (rule int_div_less_bound)
  moreover have "\<bar>trunc_float m e\<bar> = \<bar>m\<bar> div ?p"
    using assms(1) by (rule abs_trunc_float)
  ultimately show ?thesis by linarith
qed

lemma sint_int64_of_float64:
  assumes "- (2 ^ 63) \<le> trunc_float m e" and "trunc_float m e < 2 ^ 63"
  shows "sint (int64_of_float64 x (Finite m e)) = trunc_float m e"
  using assms by (simp add: int64_of_float64_def Let_def signed_of_int signed_take_bit_int_eq_self)

text \<open>
  Claim C2. For every keys document, the loop yields one (field, direction) pair for each
  entry whose value is an int32, an int64 or a float64, in the order of the document,
  and one warning naming the field and the value for every other entry, which it omits.
  No warning is an error, and a read that found the index and decoded its keys document
  sets the state with those keys and reports those warnings only; this holds for the
  resource and for the data source.
\<close>

theorem decodeKeyOrder_keeps_numeric_entries:
  "decodeKeyOrder x doc [] [] = (spec_keys x doc, spec_warnings doc)
   \<and> \<not> HasError (spec_warnings doc)
   \<and> (ListSpecifications cl (ValueString (ix_Database st)) (ValueString (ix_Collection st))
          = Inr indexes
        \<longrightarrow> find (\<lambda>i. spec_Name i = ValueString (ix_Name st)) indexes = Some index
        \<longrightarrow> Unmarshal x (spec_KeysDocument index) = Inr doc
        \<longrightarrow> diags (Index_Read x cl st) = spec_warnings doc
            \<and> (\<exists>m. state (Index_Read x cl st) = Set m \<and> ix_Keys m = spec_keys x doc))
   \<and> (ListSpecifications cl (ValueString (ds_Database plan)) (ValueString (ds_Collection plan))
          = Inr indexes
        \<longrightarrow> find (\<lambda>i. spec_Name i = ValueString (ds_Name plan)) indexes = Some index
        \<longrightarrow> Unmarshal x (spec_KeysDocument index) = Inr doc
        \<longrightarrow> diags (Index_DataSource_Read x cl plan) = spec_warnings doc
            \<and> (\<exists>m. state (Index_DataSource_Read x cl plan) = Set m
                     \<and> ds_Keys m = spec_keys x doc))"
proof (intro conjI impI)
  show "decodeKeyOrder x doc [] [] = (spec_keys x doc, spec_warnings doc)"
    by (simp add: decodeKeyOrder_acc)
  show "\<not> HasError (spec_warnings doc)"
    by (rule spec_warnings_no_error)
next
  assume "ListSpecifications cl (ValueString (ix_Database st)) (ValueString (ix_Collection st))
            = Inr indexes"
    and "find (\<lambda>i. spec_Name i = ValueString (ix_Name st)) indexes = Some index"
    and "Unmarshal x (spec_KeysDocument index) = Inr doc"
  then show "diags (Index_Read x cl st) = spec_warnings doc"
    and "\<exists>m. state (Index_Read x cl st) = Set m \<and> ix_Keys m = spec_keys x doc"
    by (simp_all add: Index_Read_def Let_def decodeKeyOrder_acc)
next
  assume "ListSpecifications cl (ValueString (ds_Database plan)) (ValueString (ds_Collection plan))
            = Inr indexes"
    and "find (\<lambda>i. spec_Name i = ValueString (ds_Name plan)) indexes = Some index"
    and "Unmarshal x (spec_KeysDocument index) = Inr doc"
  then show "diags (Index_DataSource_Read x cl plan) = spec_warnings doc"
    and "\<exists>m. state (Index_DataSource_Read x cl plan) = Set m \<and> ds_Keys m = spec_keys x doc"
    by (simp_all add: Index_DataSource_Read_def Let_def decodeKeyOrder_acc)
qed

theorem decodeKeyOrder_keeps_numeric_entries_witness:
  "decodeKeyOrder ex_extern [(''a'', VInt32 1), (''loc'', VString ''2dsphere'')] [] []
     = ([\<lparr>Field = Known ''a'', Order = Known 1\<rparr>],
        [key_order_warning ''loc'' (VString ''2dsphere'')])
   \<and> diags (Index_Read ex_extern ex_client (ex_index ''shop'' ''orders'' ''by_a''))
     = [key_order_warning ''loc'' (VString ''2dsphere'')]
   \<and> diags (Index_DataSource_Read ex_extern ex_client ex_index_ds)
     = [key_order_warning ''loc'' (VString ''2dsphere'')]"
proof -
  let ?doc = "[(''a'', VInt32 1), (''loc'', VString ''2dsphere''),
               (''b'', VDouble (Finite 3 (- 1)))]"
  let ?ix = "\<lparr>spec_Name = ''by_a'', spec_KeysDocument = ''by_a_keys'',
       spec_ExpireAfterSeconds = None, spec_Sparse = None, spec_Unique = Some True\<rparr>"
  have a: "ListSpecifications ex_client
             (ValueString (ix_Database (ex_index ''shop'' ''orders'' ''by_a'')))
             (ValueString (ix_Collection (ex_index ''shop'' ''orders'' ''by_a''))) = Inr ex_specs"
    by (simp add: ex_client_def ex_index_def index_zero_def)
  have b: "find (\<lambda>i. spec_Name i = ValueString (ix_Name (ex_index ''shop'' ''orders'' ''by_a'')))
             ex_specs = Some ?ix"
    by (simp add: ex_specs_def ex_index_def index_zero_def)
  have c: "Unmarshal ex_extern (spec_KeysDocument ?ix) = Inr ?doc"
    by (simp add: ex_extern_def)
  have a': "ListSpecifications ex_client (ValueString (ds_Database ex_index_ds))
             (ValueString (ds_Collection ex_index_ds)) = Inr ex_specs"
    by (simp add: ex_client_def ex_index_ds_def)
  have b': "find (\<lambda>i. spec_Name i = ValueString (ds_Name ex_index_ds)) ex_specs = Some ?ix"
    by (simp add: ex_specs_def ex_index_ds_def)
  have w: "spec_warnings ?doc = [key_order_warning ''loc'' (VString ''2dsphere'')]"
    by (simp add: spec_warnings_def)
  show ?thesis
    using decodeKeyOrder_keeps_numeric_entries
            [of ex_extern "[(''a'', VInt32 1), (''loc'', VString ''2dsphere'')]"]
          decodeKeyOrder_keeps_numeric_entries
            [of ex_extern ?doc ex_client "ex_index ''shop'' ''orders'' ''by_a''" ex_specs ?ix
                ex_index_ds]
          a b c a' b' w
    by (simp add: spec_keys_def spec_warnings_def)
qed

text \<open>
  Claim C10. A float64 with a fraction (\<open>m * 2 ^ e\<close> with \<open>e < 0\<close> and \<open>m\<close> not a
  multiple of \<open>2 ^ (- e)\<close>) whose magnitude is below \<open>2 ^ 63\<close> is kept in the decoded
  sequence, at its place, with no warning of its own; its direction is the value with
  the fraction cut off: the magnitude is rounded down and the sign is kept. So 1.5
  becomes 1, as 1.0 does.
\<close>

theorem fractional_float_truncated_without_warning:
  assumes "e < 0" and "\<not> 2 ^ nat (- e) dvd m" and "\<bar>m\<bar> < 2 ^ 63 * 2 ^ nat (- e)"
  shows "decodeKeyOrder x (pre @ [(k, VDouble (Finite m e))] @ post) [] []
           = (spec_keys x pre
                @ [\<lparr>Field = Known k, Order = Known (int64_of_float64 x (Finite m e))\<rparr>]
                @ spec_keys x post,
              spec_warnings pre @ spec_warnings post)
         \<and> \<bar>sint (int64_of_float64 x (Finite m e))\<bar> * 2 ^ nat (- e) < \<bar>m\<bar>
         \<and> \<bar>m\<bar> < (\<bar>sint (int64_of_float64 x (Finite m e))\<bar> + 1) * 2 ^ nat (- e)
         \<and> sint (int64_of_float64 x (Finite m e))
             = sgn m * \<bar>sint (int64_of_float64 x (Finite m e))\<bar>"
proof -
  have r: "- (2 ^ 63) \<le> trunc_float m e \<and> trunc_float m e < 2 ^ 63"
    using assms(1,3) by (rule trunc_float_in_range)
  have s: "sint (int64_of_float64 x (Finite m e)) = trunc_float m e"
    using r by (simp add: sint_int64_of_float64)
  have d: "decodeKeyOrder x (pre @ [(k, VDouble (Finite m e))] @ post) [] []
           = (spec_keys x pre
                @ [\<lparr>Field = Known k, Order = Known (int64_of_float64 x (Finite m e))\<rparr>]
                @ spec_keys x post,
              spec_warnings pre @ spec_warnings post)"
    by (simp add: decodeKeyOrder_acc spec_keys_append spec_warnings_append)
       (simp add: spec_keys_def spec_warnings_def)
  show ?thesis
    unfolding s using d trunc_float_bounds [OF assms(1,2)] by simp
qed

theorem fractional_float_truncated_without_warning_witness:
  "decodeKeyOrder ex_extern [(''x'', VDouble (Finite 3 (- 1)))] [] []
     = ([\<lparr>Field = Known ''x'', Order = Known 1\<rparr>], [])
   \<and> decodeKeyOrder ex_extern [(''x'', VDouble (Finite 1 0))] [] []
     = ([\<lparr>Field = Known ''x'', Order = Known 1\<rparr>], [])
   \<and> sint (int64_of_float64 ex_extern (Finite 3 (- 1))) = 1"
proof -
  have h: "(- 1 :: int) < 0" "\<not> 2 ^ nat (- (- 1)) dvd (3 :: int)"
    "\<bar>3 :: int\<bar> < 2 ^ 63 * 2 ^ nat (- (- 1))"
    by simp_all
  have v: "int64_of_float64 ex_extern (Finite 3 (- 1)) = 1"
    by (simp add: int64_of_float64_def trunc_float_def)
  show ?thesis
    using fractional_float_truncated_without_warning
            [OF h, of ex_extern "[]" "''x''" "[]"] v
    by (simp add: spec_keys_def spec_warnings_def int64_of_float64_def trunc_float_def)
qed

section \<open>Creating and updating an index\<close>

lemma Index_Create_issue_calls:
  "calls (Index_Create_issue cl plan cs idx)
     = cs @ [CallCreateOne (ValueString (ix_Database plan)) (ValueString (ix_Collection plan)) idx]"
  by (simp add: Index_Create_issue_def Let_def split: sum.split)

lemma Index_Create_issue_state:
  "state (Index_Create_issue cl plan cs idx) = Set m \<longleftrightarrow>
     (\<exists>name. CreateOne cl (ValueString (ix_Database plan)) (ValueString (ix_Collection plan)) idx
                = Inr name
             \<and> m = plan\<lparr>ix_ID := Known (index_id (ValueString (ix_Database plan))
                                          (ValueString (ix_Collection plan)) name)\<rparr>)"
  by (auto simp add: Index_Create_issue_def Let_def split: sum.split)

text \<open>
  Claim C6. Every create of an index first lists the specifications of the target
  collection. When the listing holds a specification with the desired name, the create
  fails with the error "Index already exists" and has issued the listing only. A
  \<open>CreateOne\<close> is issued only on the target collection, only after a listing that holds
  no such specification, and it is the second and last call. When the create sets the
  state, the store answered \<open>CreateOne\<close> with a name, and the identity is
  database/collection/that name. With no partial filter expression and no such
  specification listed, the \<open>CreateOne\<close> is issued.
\<close>

theorem index_create_lists_before_creating:
  "(\<exists>rest. calls (Index_Create x cl plan)
              = CallListSpecifications (ValueString (ix_Database plan))
                  (ValueString (ix_Collection plan)) # rest)
   \<and> (ListSpecifications cl (ValueString (ix_Database plan)) (ValueString (ix_Collection plan))
         = Inr specs
       \<longrightarrow> list_ex (\<lambda>s. spec_Name s = ValueString (ix_Name plan)) specs
       \<longrightarrow> Index_Create x cl plan =
             \<lparr>calls = [CallListSpecifications (ValueString (ix_Database plan))
                         (ValueString (ix_Collection plan))],
              diags = [ErrorDiag ''Index already exists''
                         (Lit (''An index named '' @ ValueString (ix_Name plan)
                                 @ '' already exists.''))],
              state = Untouched\<rparr>)
   \<and> (CallCreateOne d c idx \<in> set (calls (Index_Create x cl plan))
       \<longrightarrow> d = ValueString (ix_Database plan) \<and> c = ValueString (ix_Collection plan)
           \<and> im_Name idx = ValueStringPointer (ix_Name plan)
           \<and> calls (Index_Create x cl plan)
               = [CallListSpecifications d c, CallCreateOne d c idx]
           \<and> (\<exists>found. ListSpecifications cl d c = Inr found
                 \<and> \<not> list_ex (\<lambda>s. spec_Name s = ValueString (ix_Name plan)) found))
   \<and> (state (Index_Create x cl plan) = Set m
       \<longrightarrow> (\<exists>model name.
              CallCreateOne (ValueString (ix_Database plan)) (ValueString (ix_Collection plan))
                  model \<in> set (calls (Index_Create x cl plan))
              \<and> CreateOne cl (ValueString (ix_Database plan)) (ValueString (ix_Collection plan))
                   model = Inr name
              \<and> m = plan\<lparr>ix_ID := Known (index_id (ValueString (ix_Database plan))
                                           (ValueString (ix_Collection plan)) name)\<rparr>))
   \<and> (ListSpecifications cl (ValueString (ix_Database plan)) (ValueString (ix_Collection plan))
         = Inr specs
       \<longrightarrow> \<not> list_ex (\<lambda>s. spec_Name s = ValueString (ix_Name plan)) specs
       \<longrightarrow> ValueString (ix_Partial plan) = []
       \<longrightarrow> calls (Index_Create x cl plan)
             = [CallListSpecifications (ValueString (ix_Database plan))
                  (ValueString (ix_Collection plan)),
                CallCreateOne (ValueString (ix_Database plan)) (ValueString (ix_Collection plan))
                  (index_model_of plan None)])"
proof (intro conjI impI)
  show "\<exists>rest. calls (Index_Create x cl plan)
              = CallListSpecifications (ValueString (ix_Database plan))
                  (ValueString (ix_Collection plan)) # rest"
    by (simp add: Index_Create_def Let_def Index_Create_issue_calls split: sum.split)
next
  assume "ListSpecifications cl (ValueString (ix_Database plan)) (ValueString (ix_Collection plan))
         = Inr specs"
    and "list_ex (\<lambda>s. spec_Name s = ValueString (ix_Name plan)) specs"
  then show "Index_Create x cl plan =
             \<lparr>calls = [CallListSpecifications (ValueString (ix_Database plan))
                         (ValueString (ix_Collection plan))],
              diags = [ErrorDiag ''Index already exists''
                         (Lit (''An index named '' @ ValueString (ix_Name plan)
                                 @ '' already exists.''))],
              state = Untouched\<rparr>"
    by (simp add: Index_Create_def Let_def)
next
  assume a: "CallCreateOne d c idx \<in> set (calls (Index_Create x cl plan))"
  then show "d = ValueString (ix_Database plan)" and "c = ValueString (ix_Collection plan)"
    and "im_Name idx = ValueStringPointer (ix_Name plan)"
    and "calls (Index_Create x cl plan) = [CallListSpecifications d c, CallCreateOne d c idx]"
    and "\<exists>found. ListSpecifications cl d c = Inr found
           \<and> \<not> list_ex (\<lambda>s. spec_Name s = ValueString (ix_Name plan)) found"
    by (auto simp add: Index_Create_def Let_def Index_Create_issue_calls index_model_of_def
         split: sum.splits if_splits)
next
  assume "state (Index_Create x cl plan) = Set m"
  then show "\<exists>model name.
              CallCreateOne (ValueString (ix_Database plan)) (ValueString (ix_Collection plan))
                  model \<in> set (calls (Index_Create x cl plan))
              \<and> CreateOne cl (ValueString (ix_Database plan)) (ValueString (ix_Collection plan))
                   model = Inr name
              \<and> m = plan\<lparr>ix_ID := Known (index_id (ValueString (ix_Database plan))
                                           (ValueString (ix_Collection plan)) name)\<rparr>"
    by (auto simp add: Index_Create_def Let_def Index_Create_issue_calls Index_Create_issue_state
         split: sum.splits if_splits)
next
  assume "ListSpecifications cl (ValueString (ix_Database plan)) (ValueString (ix_Collection plan))
         = Inr specs"
    and "\<not> list_ex (\<lambda>s. spec_Name s = ValueString (ix_Name plan)) specs"
    and "ValueString (ix_Partial plan) = []"
  then show "calls (Index_Create x cl plan)
             = [CallListSpecifications (ValueString (ix_Database plan))
                  (ValueString (ix_Collection plan)),
                CallCreateOne (ValueString (ix_Database plan)) (ValueString (ix_Collection plan))
                  (index_model_of plan None)]"
    by (simp add: Index_Create_def Let_def Index_Create_issue_calls)
qed

theorem index_create_lists_before_creating_witness:
  "Index_Create ex_extern ex_client (ex_index ''shop'' ''orders'' ''by_a'') =
     \<lparr>calls = [CallListSpecifications ''shop'' ''orders''],
      diags = [ErrorDiag ''Index already exists'' (Lit ''An index named by_a already exists.'')],
      state = Untouched\<rparr>
   \<and> calls (Index_Create ex_extern ex_client (ex_index ''shop'' ''orders'' ''by_b''))
       = [CallListSpecifications ''shop'' ''orders'',
          CallCreateOne ''shop'' ''orders''
            (index_model_of (ex_index ''shop'' ''orders'' ''by_b'') None)]
   \<and> state (Index_Create ex_extern ex_client (ex_index ''shop'' ''orders'' ''by_b''))
       = Set (ex_index ''shop'' ''orders'' ''by_b''\<lparr>ix_ID := Known ''shop/orders/by_b''\<rparr>)"
proof -
  let ?a = "ex_index ''shop'' ''orders'' ''by_a''"
  let ?b = "ex_index ''shop'' ''orders'' ''by_b''"
  have la: "ListSpecifications ex_client (ValueString (ix_Database ?a))
              (ValueString (ix_Collection ?a)) = Inr ex_specs"
    and lb: "ListSpecifications ex_client (ValueString (ix_Database ?b))
              (ValueString (ix_Collection ?b)) = Inr ex_specs"
    by (simp_all add: ex_client_def ex_index_def index_zero_def)
  have ea: "list_ex (\<lambda>s. spec_Name s = ValueString (ix_Name ?a)) ex_specs"
    and eb: "\<not> list_ex (\<lambda>s. spec_Name s = ValueString (ix_Name ?b)) ex_specs"
    and pb: "ValueString (ix_Partial ?b) = []"
    by (simp_all add: ex_specs_def ex_index_def index_zero_def)
  have v: "ValueString (ix_Database ?a) = ''shop''" "ValueString (ix_Collection ?a) = ''orders''"
    "ValueString (ix_Name ?a) = ''by_a''"
    "ValueString (ix_Database ?b) = ''shop''" "ValueString (ix_Collection ?b) = ''orders''"
    by (simp_all add: ex_index_def index_zero_def)
  have t2: "ListSpecifications ex_client (ValueString (ix_Database ?a))
              (ValueString (ix_Collection ?a)) = Inr ex_specs
       \<longrightarrow> list_ex (\<lambda>s. spec_Name s = ValueString (ix_Name ?a)) ex_specs
       \<longrightarrow> Index_Create ex_extern ex_client ?a =
             \<lparr>calls = [CallListSpecifications (ValueString (ix_Database ?a))
                         (ValueString (ix_Collection ?a))],
              diags = [ErrorDiag ''Index already exists''
                         (Lit (''An index named '' @ ValueString (ix_Name ?a)
                                 @ '' already exists.''))],
              state = Untouched\<rparr>"
    using index_create_lists_before_creating [of ex_extern ex_client ?a ex_specs]
    by (rule conjunct1 [OF conjunct2])
  have t5: "ListSpecifications ex_client (ValueString (ix_Database ?b))
              (ValueString (ix_Collection ?b)) = Inr ex_specs
       \<longrightarrow> \<not> list_ex (\<lambda>s. spec_Name s = ValueString (ix_Name ?b)) ex_specs
       \<longrightarrow> ValueString (ix_Partial ?b) = []
       \<longrightarrow> calls (Index_Create ex_extern ex_client ?b)
             = [CallListSpecifications (ValueString (ix_Database ?b))
                  (ValueString (ix_Collection ?b)),
                CallCreateOne (ValueString (ix_Database ?b)) (ValueString (ix_Collection ?b))
                  (index_model_of ?b None)]"
    using index_create_lists_before_creating [of ex_extern ex_client ?b ex_specs]
    by (rule conjunct2 [OF conjunct2 [OF conjunct2 [OF conjunct2]]])
  have r1: "Index_Create ex_extern ex_client ?a =
             \<lparr>calls = [CallListSpecifications (ValueString (ix_Database ?a))
                         (ValueString (ix_Collection ?a))],
              diags = [ErrorDiag ''Index already exists''
                         (Lit (''An index named '' @ ValueString (ix_Name ?a)
                                 @ '' already exists.''))],
              state = Untouched\<rparr>"
    using t2 la ea by (rule mp [OF mp])
  have r2: "calls (Index_Create ex_extern ex_client ?b)
             = [CallListSpecifications (ValueString (ix_Database ?b))
                  (ValueString (ix_Collection ?b)),
                CallCreateOne (ValueString (ix_Database ?b)) (ValueString (ix_Collection ?b))
                  (index_model_of ?b None)]"
    using t5 lb eb pb by (rule mp [OF mp [OF mp]])
  have st: "state (Index_Create ex_extern ex_client ?b)
              = Set (?b\<lparr>ix_ID := Known ''shop/orders/by_b''\<rparr>)"
    by (simp add: Index_Create_def Index_Create_issue_def Let_def ex_client_def ex_index_def
          index_zero_def ex_specs_def index_model_of_def index_id_def)
  show ?thesis
    using r1 r2 st by (simp only: v append.simps)
qed

text \<open>
  Claim C8. The update of an index issues no call to the store, reports nothing, and
  sets the state to the plan, whatever the store is.
\<close>

theorem index_update_issues_no_command:
  "calls (Index_Update cl plan) = []
   \<and> diags (Index_Update cl plan) = []
   \<and> state (Index_Update cl plan) = Set plan"
  by (simp add: Index_Update_def)

section \<open>Creating and updating a database\<close>

text \<open>
  Claim C7. When the store lists a database with the desired name, the create fails
  with the error "Database already exists" and has issued the listing only. When the
  store lists none, the create issues the create of the placeholder collection exactly
  when \<open>keep_placeholder\<close> is true, reports nothing whatever that command returns, and
  sets the state with the identity equal to the name.
\<close>

theorem database_create_checks_existence:
  "(ListDatabaseNames cl (ValueString (db_Name plan)) = Inr dbs \<longrightarrow> dbs \<noteq> []
      \<longrightarrow> Database_Create cl plan =
            \<lparr>calls = [CallListDatabaseNames (ValueString (db_Name plan))],
             diags = [ErrorDiag ''Database already exists''
                        (Lit (''A database named '' @ ValueString (db_Name plan)
                                @ '' already exists.''))],
             state = Untouched\<rparr>)
   \<and> (ListDatabaseNames cl (ValueString (db_Name plan)) = Inr []
      \<longrightarrow> Database_Create cl plan =
            \<lparr>calls = CallListDatabaseNames (ValueString (db_Name plan))
                      # (if ValueBool (db_KeepPlaceholder plan)
                         then [CallRunCommand (ValueString (db_Name plan))
                                 [(''create'', CString tfPlaceholderColl)]]
                         else []),
             diags = [],
             state = Set (plan\<lparr>db_ID := Known (ValueString (db_Name plan))\<rparr>)\<rparr>)"
  by (simp add: Database_Create_def Let_def)

theorem database_create_checks_existence_witness:
  "HasError (diags (Database_Create ex_client (ex_database ''shop'' True)))
   \<and> calls (Database_Create ex_client (ex_database ''shop'' True))
       = [CallListDatabaseNames ''shop'']
   \<and> RunCommand ex_client ''fresh'' [(''create'', CString tfPlaceholderColl)]
       = Some ''not authorized''
   \<and> Database_Create ex_client (ex_database ''fresh'' True) =
       \<lparr>calls = [CallListDatabaseNames ''fresh'',
                 CallRunCommand ''fresh'' [(''create'', CString ''__tf_placeholder'')]],
        diags = [],
        state = Set (ex_database ''fresh'' True\<lparr>db_ID := Known ''fresh''\<rparr>)\<rparr>"
proof -
  have a: "ListDatabaseNames ex_client (ValueString (db_Name (ex_database ''shop'' True)))
             = Inr [''shop'']" "[''shop''] \<noteq> []"
    by (simp_all add: ex_client_def ex_database_def database_zero_def)
  have b: "ListDatabaseNames ex_client (ValueString (db_Name (ex_database ''fresh'' True)))
             = Inr []"
    by (simp add: ex_client_def ex_database_def database_zero_def)
  show ?thesis
    using database_create_checks_existence [of ex_client "ex_database ''shop'' True" "[''shop'']"]
          database_create_checks_existence [of ex_client "ex_database ''fresh'' True"]
          a b
    by (simp add: HasError_def ex_client_def ex_database_def database_zero_def
          tfPlaceholderColl_def)
qed

text \<open>
  Claim C9. The update of a database issues the one command that creates or drops the
  placeholder collection, reports no diagnostic and sets the state to the plan; the
  response is the same whatever the store answers to the command.
\<close>

theorem database_update_discards_toggle_outcome:
  "Database_Update cl plan =
     \<lparr>calls = [CallRunCommand (ValueString (db_Name plan))
                 [(if ValueBool (db_KeepPlaceholder plan) then ''create'' else ''drop'',
                   CString tfPlaceholderColl)]],
      diags = [],
      state = Set plan\<rparr>
   \<and> \<not> HasError (diags (Database_Update cl plan))
   \<and> Database_Update (cl\<lparr>RunCommand := outcome\<rparr>) plan = Database_Update cl plan"
  by (simp add: Database_Update_def Let_def HasError_def)

section \<open>Updating a collection\<close>

lemma map_fst_fields:
  "validator_field x plan st = Inr vf \<Longrightarrow>
   map fst (vf @ level_field plan st @ action_field plan st) = changed_fields plan st"
  by (auto simp add: validator_field_def level_field_def action_field_def changed_fields_def
        split: if_splits sum.splits)

lemma fields_nonempty_iff:
  "validator_field x plan st = Inr vf \<Longrightarrow>
   vf @ level_field plan st @ action_field plan st = [] \<longleftrightarrow> changed_fields plan st = []"
  by (auto simp add: validator_field_def level_field_def action_field_def changed_fields_def
        split: if_splits sum.splits)

lemma Collection_Update_calls:
  "calls (Collection_Update x cl plan st) =
     (case validator_field x plan st of
        Inl err \<Rightarrow> []
      | Inr vf \<Rightarrow>
          if changed_fields plan st = [] then []
          else [CallRunCommand (ValueString (co_Database plan))
                  ((''collMod'', CString (ValueString (co_Name plan)))
                     # vf @ level_field plan st @ action_field plan st)])"
proof (cases "validator_field x plan st")
  case (Inl err)
  then show ?thesis by (simp add: Collection_Update_def)
next
  case (Inr vf)
  have "length ((''collMod'', CString (ValueString (co_Name plan)))
                  # vf @ level_field plan st @ action_field plan st) > 1
        \<longleftrightarrow> vf @ level_field plan st @ action_field plan st \<noteq> []"
    by (cases "vf @ level_field plan st @ action_field plan st") simp_all
  then have "length ((''collMod'', CString (ValueString (co_Name plan)))
                  # vf @ level_field plan st @ action_field plan st) > 1
        \<longleftrightarrow> changed_fields plan st \<noteq> []"
    by (simp only: fields_nonempty_iff [OF Inr])
  then show ?thesis
    using Inr by (simp add: Collection_Update_def Let_def split: option.split)
qed

lemma field_values:
  assumes "validator_field x plan st = Inr vf"
  shows "(''validationLevel'', v) \<in> set (vf @ level_field plan st @ action_field plan st)
           \<Longrightarrow> v = CString (ValueString (co_ValidationLevel plan))"
    and "(''validationAction'', v) \<in> set (vf @ level_field plan st @ action_field plan st)
           \<Longrightarrow> v = CString (ValueString (co_ValidationAction plan))"
  using assms
  by (auto simp add: validator_field_def level_field_def action_field_def
        split: if_splits sum.splits)

text \<open>
  Claim C5. The update of a collection issues at most one call. A call it issues is the
  command \<open>collMod\<close> of the collection whose further fields are exactly the changed
  ones among validator, validationLevel and validationAction, the last two with the
  desired values. When the desired validator is empty and the recorded one is not, the
  command is issued and carries the empty document as its validator. When no field
  changed, no call is issued; when one changed and the desired validator parses (or is
  unchanged or empty), the call is issued.
\<close>

theorem collection_update_sends_changed_fields:
  "length (calls (Collection_Update x cl plan st)) \<le> 1
   \<and> (\<forall>c \<in> set (calls (Collection_Update x cl plan st)).
        \<exists>fields. c = CallRunCommand (ValueString (co_Database plan))
                       ((''collMod'', CString (ValueString (co_Name plan))) # fields)
                 \<and> map fst fields = changed_fields plan st
                 \<and> (\<forall>v. (''validationLevel'', v) \<in> set fields
                        \<longrightarrow> v = CString (ValueString (co_ValidationLevel plan)))
                 \<and> (\<forall>v. (''validationAction'', v) \<in> set fields
                        \<longrightarrow> v = CString (ValueString (co_ValidationAction plan))))
   \<and> (ValueString (co_Validator plan) = [] \<longrightarrow> ValueString (co_Validator st) \<noteq> []
        \<longrightarrow> (\<exists>fields. calls (Collection_Update x cl plan st)
                         = [CallRunCommand (ValueString (co_Database plan))
                              ((''collMod'', CString (ValueString (co_Name plan)))
                                 # (''validator'', CEmptyDoc) # fields)]))
   \<and> (changed_fields plan st = [] \<longrightarrow> calls (Collection_Update x cl plan st) = [])
   \<and> (changed_fields plan st \<noteq> [] \<longrightarrow> (\<exists>vf. validator_field x plan st = Inr vf)
        \<longrightarrow> length (calls (Collection_Update x cl plan st)) = 1)"
proof (intro conjI impI ballI)
  show "length (calls (Collection_Update x cl plan st)) \<le> 1"
    by (simp add: Collection_Update_calls split: sum.split)
next
  fix c
  assume c: "c \<in> set (calls (Collection_Update x cl plan st))"
  show "\<exists>fields. c = CallRunCommand (ValueString (co_Database plan))
                       ((''collMod'', CString (ValueString (co_Name plan))) # fields)
                 \<and> map fst fields = changed_fields plan st
                 \<and> (\<forall>v. (''validationLevel'', v) \<in> set fields
                        \<longrightarrow> v = CString (ValueString (co_ValidationLevel plan)))
                 \<and> (\<forall>v. (''validationAction'', v) \<in> set fields
                        \<longrightarrow> v = CString (ValueString (co_ValidationAction plan)))"
  proof (cases "validator_field x plan st")
    case (Inl err)
    with c show ?thesis by (simp add: Collection_Update_calls)
  next
    case (Inr vf)
    let ?fields = "vf @ level_field plan st @ action_field plan st"
    from c Inr have "c = CallRunCommand (ValueString (co_Database plan))
                       ((''collMod'', CString (ValueString (co_Name plan))) # ?fields)"
      by (simp add: Collection_Update_calls split: if_splits)
    moreover have "map fst ?fields = changed_fields plan st"
      using Inr by (rule map_fst_fields)
    moreover have "\<forall>v. (''validationLevel'', v) \<in> set ?fields
                        \<longrightarrow> v = CString (ValueString (co_ValidationLevel plan))"
      using field_values(1) [OF Inr] by blast
    moreover have "\<forall>v. (''validationAction'', v) \<in> set ?fields
                        \<longrightarrow> v = CString (ValueString (co_ValidationAction plan))"
      using field_values(2) [OF Inr] by blast
    ultimately show ?thesis by (intro exI [of _ ?fields] conjI)
  qed
next
  assume "ValueString (co_Validator plan) = []" and "ValueString (co_Validator st) \<noteq> []"
  then show "\<exists>fields. calls (Collection_Update x cl plan st)
                         = [CallRunCommand (ValueString (co_Database plan))
                              ((''collMod'', CString (ValueString (co_Name plan)))
                                 # (''validator'', CEmptyDoc) # fields)]"
    by (simp add: Collection_Update_calls validator_field_def changed_fields_def)
next
  assume "changed_fields plan st = []"
  then show "calls (Collection_Update x cl plan st) = []"
    by (simp add: Collection_Update_calls split: sum.split)
next
  assume "changed_fields plan st \<noteq> []" and "\<exists>vf. validator_field x plan st = Inr vf"
  then show "length (calls (Collection_Update x cl plan st)) = 1"
    by (auto simp add: Collection_Update_calls)
qed

theorem collection_update_sends_changed_fields_witness:
  "(\<exists>fields. calls (Collection_Update ex_extern ex_client
                      (ex_collection ''shop'' ''orders'' [] ''strict'')
                      (ex_collection ''shop'' ''orders'' ''{}'' ''off''))
               = [CallRunCommand ''shop''
                    ((''collMod'', CString ''orders'') # (''validator'', CEmptyDoc) # fields)])
   \<and> calls (Collection_Update ex_extern ex_client
              (ex_collection ''shop'' ''orders'' [] ''strict'')
              (ex_collection ''shop'' ''orders'' ''{}'' ''off''))
       = [CallRunCommand ''shop''
            [(''collMod'', CString ''orders''), (''validator'', CEmptyDoc),
             (''validationLevel'', CString ''strict'')]]
   \<and> calls (Collection_Update ex_extern ex_client
              (ex_collection ''shop'' ''orders'' ''{}'' ''off'')
              (ex_collection ''shop'' ''orders'' ''{}'' ''off'')) = []"
proof -
  let ?p = "ex_collection ''shop'' ''orders'' [] ''strict''"
  let ?s = "ex_collection ''shop'' ''orders'' ''{}'' ''off''"
  have v: "ValueString (co_Database ?p) = ''shop''" "ValueString (co_Name ?p) = ''orders''"
    and e: "ValueString (co_Validator ?p) = []" and ne: "ValueString (co_Validator ?s) \<noteq> []"
    by (simp_all add: ex_collection_def collection_zero_def)
  have same: "changed_fields ?s ?s = []"
    by (simp add: changed_fields_def)
  have cleared: "ValueString (co_Validator ?p) = [] \<longrightarrow> ValueString (co_Validator ?s) \<noteq> []
        \<longrightarrow> (\<exists>fields. calls (Collection_Update ex_extern ex_client ?p ?s)
                         = [CallRunCommand (ValueString (co_Database ?p))
                              ((''collMod'', CString (ValueString (co_Name ?p)))
                                 # (''validator'', CEmptyDoc) # fields)])"
    using collection_update_sends_changed_fields [of ex_extern ex_client ?p ?s]
    by (rule conjunct1 [OF conjunct2 [OF conjunct2]])
  have noop: "changed_fields ?s ?s = [] \<longrightarrow> calls (Collection_Update ex_extern ex_client ?s ?s) = []"
    using collection_update_sends_changed_fields [of ex_extern ex_client ?s ?s]
    by (rule conjunct1 [OF conjunct2 [OF conjunct2 [OF conjunct2]]])
  have r1: "\<exists>fields. calls (Collection_Update ex_extern ex_client ?p ?s)
                         = [CallRunCommand (ValueString (co_Database ?p))
                              ((''collMod'', CString (ValueString (co_Name ?p)))
                                 # (''validator'', CEmptyDoc) # fields)]"
    using cleared e ne by (rule mp [OF mp])
  have r2: "calls (Collection_Update ex_extern ex_client ?s ?s) = []"
    using noop same by (rule mp)
  have cs: "calls (Collection_Update ex_extern ex_client ?p ?s)
     = [CallRunCommand ''shop''
          [(''collMod'', CString ''orders''), (''validator'', CEmptyDoc),
           (''validationLevel'', CString ''strict'')]]"
    by (simp add: Collection_Update_def validator_field_def level_field_def action_field_def
          Let_def ex_collection_def collection_zero_def ex_client_def)
  from r1 have r1': "\<exists>fields. calls (Collection_Update ex_extern ex_client ?p ?s)
                         = [CallRunCommand ''shop''
                              ((''collMod'', CString ''orders'')
                                 # (''validator'', CEmptyDoc) # fields)]"
    by (simp only: v)
  from r1' cs r2 show ?thesis
    by (intro conjI)
qed

section \<open>Reading an absent object\<close>

text \<open>
  Claim C1, as the code has it. A database whose listing of collections is empty is
  removed from the state with no diagnostic. A collection for which the store lists no
  specification is reported with the error "Collection not found", and the state is left
  as it was. An index whose name is in no listed specification is removed from the
  state.
\<close>

theorem absent_on_read_per_kind:
  "(ListCollectionNames cl (ValueString (db_Name dst)) = Inr []
      \<longrightarrow> Database_Read cl dst =
            \<lparr>calls = [CallListCollectionNames (ValueString (db_Name dst))],
             diags = [], state = Removed\<rparr>)
   \<and> (ListCollectionSpecifications cl (ValueString (co_Database cst)) (ValueString (co_Name cst))
        = Inr []
      \<longrightarrow> Collection_Read x cl cst =
            \<lparr>calls = [CallListCollectionSpecifications (ValueString (co_Database cst))
                        (ValueString (co_Name cst))],
             diags = [ErrorDiag ''Collection not found'' (Sprintf ''%d'' [D 0])],
             state = Untouched\<rparr>)
   \<and> (ListSpecifications cl (ValueString (ix_Database ist)) (ValueString (ix_Collection ist))
        = Inr specs
      \<longrightarrow> \<not> list_ex (\<lambda>i. spec_Name i = ValueString (ix_Name ist)) specs
      \<longrightarrow> state (Index_Read x cl ist) = Removed)"
proof (intro conjI impI)
  assume "ListCollectionNames cl (ValueString (db_Name dst)) = Inr []"
  then show "Database_Read cl dst =
            \<lparr>calls = [CallListCollectionNames (ValueString (db_Name dst))],
             diags = [], state = Removed\<rparr>"
    by (simp add: Database_Read_def Let_def)
next
  assume "ListCollectionSpecifications cl (ValueString (co_Database cst))
            (ValueString (co_Name cst)) = Inr []"
  then show "Collection_Read x cl cst =
            \<lparr>calls = [CallListCollectionSpecifications (ValueString (co_Database cst))
                        (ValueString (co_Name cst))],
             diags = [ErrorDiag ''Collection not found'' (Sprintf ''%d'' [D 0])],
             state = Untouched\<rparr>"
    by (simp add: Collection_Read_def Let_def)
next
  assume l: "ListSpecifications cl (ValueString (ix_Database ist))
               (ValueString (ix_Collection ist)) = Inr specs"
    and n: "\<not> list_ex (\<lambda>i. spec_Name i = ValueString (ix_Name ist)) specs"
  from n have "find (\<lambda>i. spec_Name i = ValueString (ix_Name ist)) specs = None"
    by (simp add: find_None_iff list_ex_iff)
  with l n show "state (Index_Read x cl ist) = Removed"
    by (simp add: Index_Read_def Let_def)
qed

theorem absent_on_read_per_kind_witness:
  "Database_Read ex_client (ex_database ''gone'' True) =
     \<lparr>calls = [CallListCollectionNames ''gone''], diags = [], state = Removed\<rparr>
   \<and> diags (Collection_Read ex_extern ex_client (ex_collection ''shop'' ''gone'' [] []))
       = [ErrorDiag ''Collection not found'' (Sprintf ''%d'' [D 0])]
   \<and> state (Index_Read ex_extern ex_client (ex_index ''shop'' ''orders'' ''gone'')) = Removed"
proof -
  have a: "ListCollectionNames ex_client (ValueString (db_Name (ex_database ''gone'' True)))
             = Inr []"
    by (simp add: ex_client_def ex_database_def database_zero_def)
  have b: "ListCollectionSpecifications ex_client
             (ValueString (co_Database (ex_collection ''shop'' ''gone'' [] [])))
             (ValueString (co_Name (ex_collection ''shop'' ''gone'' [] []))) = Inr []"
    by (simp add: ex_client_def ex_collection_def collection_zero_def)
  have c: "ListSpecifications ex_client
             (ValueString (ix_Database (ex_index ''shop'' ''orders'' ''gone'')))
             (ValueString (ix_Collection (ex_index ''shop'' ''orders'' ''gone''))) = Inr ex_specs"
    by (simp add: ex_client_def ex_index_def index_zero_def)
  have d: "\<not> list_ex (\<lambda>i. spec_Name i
              = ValueString (ix_Name (ex_index ''shop'' ''orders'' ''gone''))) ex_specs"
    by (simp add: ex_specs_def ex_index_def index_zero_def)
  show ?thesis
    using absent_on_read_per_kind
            [of ex_client "ex_database ''gone'' True" "ex_collection ''shop'' ''gone'' [] []"
                ex_extern "ex_index ''shop'' ''orders'' ''gone''" ex_specs]
          a b c d
    by (simp add: ex_database_def database_zero_def ex_collection_def collection_zero_def)
qed

text \<open>
  The claim as it was stated fails for the collection: the read of a collection that
  the store does not list reports an error and does not remove the resource.
\<close>

theorem collection_read_absent_reports_error:
  "ListCollectionSpecifications ex_client ''shop'' ''gone'' = Inr []
   \<and> HasError (diags (Collection_Read ex_extern ex_client (ex_collection ''shop'' ''gone'' [] [])))
   \<and> state (Collection_Read ex_extern ex_client (ex_collection ''shop'' ''gone'' [] []))
       = Untouched"
  by (simp add: Collection_Read_def Let_def ex_client_def ex_collection_def collection_zero_def
        HasError_def)

text \<open>
  The read of an absent index goes on after \<open>RemoveResource\<close>, finds no specification
  and adds the error "Index not found".
\<close>

lemma index_read_absent_also_reports_error:
  "ListSpecifications cl (ValueString (ix_Database st)) (ValueString (ix_Collection st))
     = Inr specs
   \<Longrightarrow> \<not> list_ex (\<lambda>i. spec_Name i = ValueString (ix_Name st)) specs
   \<Longrightarrow> Index_Read x cl st =
         \<lparr>calls = [CallListSpecifications (ValueString (ix_Database st))
                     (ValueString (ix_Collection st))],
          diags = [ErrorDiag ''Index not found'' (Lit [])],
          state = Removed\<rparr>"
proof -
  assume l: "ListSpecifications cl (ValueString (ix_Database st))
               (ValueString (ix_Collection st)) = Inr specs"
    and n: "\<not> list_ex (\<lambda>i. spec_Name i = ValueString (ix_Name st)) specs"
  from n have "find (\<lambda>i. spec_Name i = ValueString (ix_Name st)) specs = None"
    by (simp add: find_None_iff list_ex_iff)
  with l n show ?thesis
    by (simp add: Index_Read_def Let_def)
qed

section \<open>Identity strings of an import\<close>

lemma takeWhile_sep: "sep \<notin> set a \<Longrightarrow> takeWhile (\<lambda>c. c \<noteq> sep) (a @ sep # r) = a"
  by (induction a) auto

lemma dropWhile_sep: "sep \<notin> set a \<Longrightarrow> dropWhile (\<lambda>c. c \<noteq> sep) (a @ sep # r) = sep # r"
  by (induction a) auto

lemma SplitN_2:
  "SplitN s sep 2 =
     (if sep \<in> set s
      then [takeWhile (\<lambda>c. c \<noteq> sep) s, tl (dropWhile (\<lambda>c. c \<noteq> sep) s)] else [s])"
  by (simp add: numeral_2_eq_2)

lemma SplitN_3:
  "SplitN s sep 3 =
     (if sep \<in> set s
      then takeWhile (\<lambda>c. c \<noteq> sep) s # SplitN (tl (dropWhile (\<lambda>c. c \<noteq> sep) s)) sep 2
      else [s])"
  by (simp add: numeral_3_eq_3 numeral_2_eq_2)

lemma SplitN_2_eq:
  "SplitN s sep 2 = [a, b] \<longleftrightarrow> s = a @ sep # b \<and> sep \<notin> set a"
proof
  assume r: "SplitN s sep 2 = [a, b]"
  then have "sep \<in> set s"
    by (simp add: SplitN_2 split: if_splits)
  then obtain a' r' where s: "s = a' @ sep # r'" and a': "sep \<notin> set a'"
    by (auto dest: split_list_first)
  from r s a' show "s = a @ sep # b \<and> sep \<notin> set a"
    by (simp add: SplitN_2 takeWhile_sep dropWhile_sep)
next
  assume "s = a @ sep # b \<and> sep \<notin> set a"
  then show "SplitN s sep 2 = [a, b]"
    by (simp add: SplitN_2 takeWhile_sep dropWhile_sep)
qed

lemma SplitN_3_eq:
  "SplitN s sep 3 = [a, b, c] \<longleftrightarrow>
     s = a @ sep # b @ sep # c \<and> sep \<notin> set a \<and> sep \<notin> set b"
proof
  assume r: "SplitN s sep 3 = [a, b, c]"
  then have "sep \<in> set s"
    by (simp add: SplitN_3 split: if_splits)
  then obtain a' r' where s: "s = a' @ sep # r'" and a': "sep \<notin> set a'"
    by (auto dest: split_list_first)
  from r s a' have "a = a'" and "SplitN r' sep 2 = [b, c]"
    by (simp_all add: SplitN_3 takeWhile_sep dropWhile_sep)
  then show "s = a @ sep # b @ sep # c \<and> sep \<notin> set a \<and> sep \<notin> set b"
    using s a' by (simp add: SplitN_2_eq)
next
  assume h: "s = a @ sep # b @ sep # c \<and> sep \<notin> set a \<and> sep \<notin> set b"
  then have "SplitN (b @ sep # c) sep 2 = [b, c]"
    by (simp add: SplitN_2_eq)
  with h show "SplitN s sep 3 = [a, b, c]"
    by (simp add: SplitN_3 takeWhile_sep dropWhile_sep)
qed

lemma length_2_conv: "length xs = 2 \<longleftrightarrow> (\<exists>a b. xs = [a, b])"
  by (cases xs; cases "tl xs") (auto simp add: numeral_2_eq_2)

lemma length_3_conv: "length xs = 3 \<longleftrightarrow> (\<exists>a b c. xs = [a, b, c])"
  by (cases xs; cases "tl xs"; cases "tl (tl xs)") (auto simp add: numeral_3_eq_3)

lemma Collection_ImportState_accepts:
  assumes "TrimSpace rid = collection_id d n" and "d \<noteq> []" and "n \<noteq> []"
    and "CHR ''/'' \<notin> set d"
  shows "Collection_ImportState rid =
           \<lparr>calls = [], diags = [],
            state = Set (collection_zero\<lparr>co_ID := Known (collection_id d n),
                                          co_Name := Known n,
                                          co_Database := Known d\<rparr>)\<rparr>"
proof -
  have "SplitN (collection_id d n) CHR ''/'' 2 = [d, n]"
    using assms(4) by (simp add: SplitN_2_eq collection_id_def)
  then show ?thesis
    using assms(1,2,3) by (simp add: Collection_ImportState_def Let_def collection_id_def)
qed

lemma Collection_ImportState_rejects:
  assumes "\<not> HasError (diags (Collection_ImportState rid))"
  shows "\<exists>d n. TrimSpace rid = collection_id d n \<and> d \<noteq> [] \<and> n \<noteq> []
               \<and> CHR ''/'' \<notin> set d"
proof -
  let ?parts = "SplitN (TrimSpace rid) CHR ''/'' 2"
  from assms have l: "length ?parts = 2" and ne: "?parts ! 0 \<noteq> []" "?parts ! 1 \<noteq> []"
    by (auto simp add: Collection_ImportState_def Let_def HasError_def split: if_splits)
  from l obtain d n where p: "?parts = [d, n]"
    by (auto simp add: length_2_conv)
  with ne have "d \<noteq> []" and "n \<noteq> []" by simp_all
  moreover from p have "TrimSpace rid = d @ CHR ''/'' # n \<and> CHR ''/'' \<notin> set d"
    by (rule SplitN_2_eq [THEN iffD1])
  ultimately show ?thesis
    by (auto simp add: collection_id_def)
qed

lemma Index_ImportState_accepts:
  assumes "TrimSpace rid = index_id d c n" and "d \<noteq> []" and "c \<noteq> []" and "n \<noteq> []"
    and "CHR ''/'' \<notin> set d" and "CHR ''/'' \<notin> set c"
  shows "Index_ImportState rid =
           \<lparr>calls = [], diags = [],
            state = Set (index_zero\<lparr>ix_ID := Known (index_id d c n),
                                     ix_Name := Known n,
                                     ix_Collection := Known c,
                                     ix_Database := Known d\<rparr>)\<rparr>"
proof -
  have "SplitN (index_id d c n) CHR ''/'' 3 = [d, c, n]"
    using assms(5,6) by (simp add: SplitN_3_eq index_id_def)
  then show ?thesis
    using assms(1,2,3,4) by (simp add: Index_ImportState_def Let_def index_id_def)
qed

lemma Index_ImportState_rejects:
  assumes "\<not> HasError (diags (Index_ImportState rid))"
  shows "\<exists>d c n. TrimSpace rid = index_id d c n \<and> d \<noteq> [] \<and> c \<noteq> [] \<and> n \<noteq> []
               \<and> CHR ''/'' \<notin> set d \<and> CHR ''/'' \<notin> set c"
proof -
  let ?parts = "SplitN (TrimSpace rid) CHR ''/'' 3"
  from assms have l: "length ?parts = 3"
    and ne: "?parts ! 0 \<noteq> []" "?parts ! 1 \<noteq> []" "?parts ! 2 \<noteq> []"
    by (auto simp add: Index_ImportState_def Let_def HasError_def split: if_splits)
  from l obtain d c n where p: "?parts = [d, c, n]"
    by (auto simp add: length_3_conv)
  with ne have "d \<noteq> []" and "c \<noteq> []" and "n \<noteq> []" by simp_all
  moreover from p have "TrimSpace rid = d @ CHR ''/'' # c @ CHR ''/'' # n
      \<and> CHR ''/'' \<notin> set d \<and> CHR ''/'' \<notin> set c"
    by (rule SplitN_3_eq [THEN iffD1])
  ultimately show ?thesis
    by (auto simp add: index_id_def)
qed

lemma space_runes_nonempty: "\<forall>p \<in> set space_runes. p \<noteq> []"
  by (simp add: space_runes_def)

lemma space_runes_no_slash: "\<forall>p \<in> set space_runes. CHR ''/'' \<notin> set p"
  by (simp add: space_runes_def)

lemma rune_len_0:
  assumes "\<not> list_ex (\<lambda>p. prefix p s) rs"
  shows "rune_len rs s = 0"
proof -
  from assms have "find (\<lambda>p. prefix p s) rs = None"
    by (simp add: find_None_iff list_ex_iff)
  then show ?thesis by (simp add: rune_len_def)
qed

lemma TrimLeftFunc_id: "\<not> list_ex (\<lambda>p. prefix p s) rs \<Longrightarrow> TrimLeftFunc rs s = s"
  by (cases s) (simp_all add: rune_len_0)

lemma TrimRightFunc_id:
  assumes "\<not> list_ex (\<lambda>p. suffix p s) rs"
  shows "TrimRightFunc rs s = s"
proof -
  from assms have "\<not> list_ex (\<lambda>p. prefix p (rev s)) (map rev rs)"
    by (simp add: list_ex_iff suffix_to_prefix)
  then show ?thesis
    by (simp add: TrimRightFunc_def TrimLeftFunc_id)
qed

lemma TrimSpace_id: "\<not> leading_space s \<Longrightarrow> \<not> trailing_space s \<Longrightarrow> TrimSpace s = s"
  by (simp add: TrimSpace_def leading_space_def trailing_space_def TrimLeftFunc_id
        TrimRightFunc_id)

lemma prefix_before_sep:
  assumes "prefix p (d @ c # r)" and "c \<notin> set p"
  shows "prefix p d"
proof -
  from assms(1) have "prefix p d \<or> (\<exists>us. p = d @ us \<and> prefix us (c # r))"
    by (simp add: prefix_append)
  then show ?thesis
  proof
    assume "prefix p d"
    then show ?thesis .
  next
    assume "\<exists>us. p = d @ us \<and> prefix us (c # r)"
    then obtain us where u: "p = d @ us" "prefix us (c # r)" by blast
    show ?thesis
    proof (cases us)
      case Nil
      with u(1) show ?thesis by simp
    next
      case (Cons a as)
      with u(2) have "a = c" by simp
      with Cons u(1) assms(2) show ?thesis by simp
    qed
  qed
qed

lemma suffix_after_sep:
  assumes "suffix p (l @ c # n)" and "c \<notin> set p"
  shows "suffix p n"
proof -
  from assms(1) have "prefix (rev p) (rev n @ c # rev l)"
    by (simp add: suffix_to_prefix)
  moreover from assms(2) have "c \<notin> set (rev p)" by simp
  ultimately have "prefix (rev p) (rev n)"
    by (rule prefix_before_sep)
  then show ?thesis
    by (simp add: suffix_to_prefix)
qed

lemma leading_space_before_slash:
  "\<not> leading_space d \<Longrightarrow> \<not> leading_space (d @ CHR ''/'' # r)"
  using space_runes_no_slash
  by (auto simp add: leading_space_def list_ex_iff dest: prefix_before_sep)

lemma trailing_space_after_slash:
  "\<not> trailing_space n \<Longrightarrow> \<not> trailing_space (l @ CHR ''/'' # n)"
  using space_runes_no_slash
  by (auto simp add: trailing_space_def list_ex_iff dest: suffix_after_sep)

text \<open>
  Claim C3, as the code has it. An import trims the white space around the identity
  first. A database identity is rejected exactly when the trimmed string is empty; it
  is never split. A collection identity is accepted exactly when the trimmed string is
  a non-empty database without separator, a separator and a non-empty name; an index
  identity exactly when it is a non-empty database and a non-empty collection, both
  without separator, and a non-empty name, joined by separators. The string is split at
  its first one (two) separators only: the last part keeps every further separator.
  Every diagnostic of an import is one of the two errors that reject an identity.
\<close>

theorem import_identity_rejected_exactly:
  "(HasError (diags (Database_ImportState rid)) \<longleftrightarrow> TrimSpace rid = [])
   \<and> (HasError (diags (Collection_ImportState rid)) \<longleftrightarrow>
        \<not> (\<exists>d n. TrimSpace rid = collection_id d n \<and> d \<noteq> [] \<and> n \<noteq> []
                   \<and> CHR ''/'' \<notin> set d))
   \<and> (HasError (diags (Index_ImportState rid)) \<longleftrightarrow>
        \<not> (\<exists>d c n. TrimSpace rid = index_id d c n \<and> d \<noteq> [] \<and> c \<noteq> [] \<and> n \<noteq> []
                     \<and> CHR ''/'' \<notin> set d \<and> CHR ''/'' \<notin> set c))
   \<and> list_all invalid_identity
        (diags (Database_ImportState rid) @ diags (Collection_ImportState rid)
           @ diags (Index_ImportState rid))"
proof (intro conjI)
  show "HasError (diags (Database_ImportState rid)) \<longleftrightarrow> TrimSpace rid = []"
    by (simp add: Database_ImportState_def Let_def HasError_def)
next
  show "list_all invalid_identity
        (diags (Database_ImportState rid) @ diags (Collection_ImportState rid)
           @ diags (Index_ImportState rid))"
    by (simp add: Database_ImportState_def Collection_ImportState_def Index_ImportState_def
          Let_def)
next
  show "HasError (diags (Collection_ImportState rid)) \<longleftrightarrow>
        \<not> (\<exists>d n. TrimSpace rid = collection_id d n \<and> d \<noteq> [] \<and> n \<noteq> []
                   \<and> CHR ''/'' \<notin> set d)"
  proof
    assume e: "HasError (diags (Collection_ImportState rid))"
    show "\<not> (\<exists>d n. TrimSpace rid = collection_id d n \<and> d \<noteq> [] \<and> n \<noteq> []
                   \<and> CHR ''/'' \<notin> set d)"
    proof
      assume "\<exists>d n. TrimSpace rid = collection_id d n \<and> d \<noteq> [] \<and> n \<noteq> []
                   \<and> CHR ''/'' \<notin> set d"
      then obtain d n where "TrimSpace rid = collection_id d n" "d \<noteq> []" "n \<noteq> []"
        "CHR ''/'' \<notin> set d" by blast
      then have "diags (Collection_ImportState rid) = []"
        by (simp add: Collection_ImportState_accepts)
      with e show False by (simp add: HasError_def)
    qed
  next
    assume "\<not> (\<exists>d n. TrimSpace rid = collection_id d n \<and> d \<noteq> [] \<and> n \<noteq> []
                   \<and> CHR ''/'' \<notin> set d)"
    then show "HasError (diags (Collection_ImportState rid))"
      using Collection_ImportState_rejects by blast
  qed
next
  show "HasError (diags (Index_ImportState rid)) \<longleftrightarrow>
        \<not> (\<exists>d c n. TrimSpace rid = index_id d c n \<and> d \<noteq> [] \<and> c \<noteq> [] \<and> n \<noteq> []
                     \<and> CHR ''/'' \<notin> set d \<and> CHR ''/'' \<notin> set c)"
  proof
    assume e: "HasError (diags (Index_ImportState rid))"
    show "\<not> (\<exists>d c n. TrimSpace rid = index_id d c n \<and> d \<noteq> [] \<and> c \<noteq> [] \<and> n \<noteq> []
                     \<and> CHR ''/'' \<notin> set d \<and> CHR ''/'' \<notin> set c)"
    proof
      assume "\<exists>d c n. TrimSpace rid = index_id d c n \<and> d \<noteq> [] \<and> c \<noteq> [] \<and> n \<noteq> []
                     \<and> CHR ''/'' \<notin> set d \<and> CHR ''/'' \<notin> set c"
      then obtain d c n where "TrimSpace rid = index_id d c n" "d \<noteq> []" "c \<noteq> []" "n \<noteq> []"
        "CHR ''/'' \<notin> set d" "CHR ''/'' \<notin> set c" by blast
      then have "diags (Index_ImportState rid) = []"
        by (simp add: Index_ImportState_accepts)
      with e show False by (simp add: HasError_def)
    qed
  next
    assume "\<not> (\<exists>d c n. TrimSpace rid = index_id d c n \<and> d \<noteq> [] \<and> c \<noteq> [] \<and> n \<noteq> []
                     \<and> CHR ''/'' \<notin> set d \<and> CHR ''/'' \<notin> set c)"
    then show "HasError (diags (Index_ImportState rid))"
      using Index_ImportState_rejects by blast
  qed
qed

theorem import_identity_rejected_exactly_witness:
  "(\<exists>d n. TrimSpace '' a/b'' = collection_id d n \<and> d \<noteq> [] \<and> n \<noteq> []
            \<and> CHR ''/'' \<notin> set d)
   \<and> \<not> (\<exists>d c n. TrimSpace '' a/b'' = index_id d c n \<and> d \<noteq> [] \<and> c \<noteq> [] \<and> n \<noteq> []
                 \<and> CHR ''/'' \<notin> set d \<and> CHR ''/'' \<notin> set c)
   \<and> TrimSpace '' a/b'' \<noteq> []"
proof -
  have t: "TrimSpace '' a/b'' = ''a/b''"
    by (simp add: TrimSpace_def TrimRightFunc_def rune_len_def space_runes_def)
  have d: "\<not> HasError (diags (Database_ImportState '' a/b''))"
    by (simp add: Database_ImportState_def Let_def HasError_def t)
  have c: "\<not> HasError (diags (Collection_ImportState '' a/b''))"
    by (simp add: Collection_ImportState_def Let_def HasError_def t SplitN_2)
  have i: "HasError (diags (Index_ImportState '' a/b''))"
    by (simp add: Index_ImportState_def Let_def HasError_def t SplitN_3 SplitN_2)
  show ?thesis
    using import_identity_rejected_exactly [of "'' a/b''"] d c i by blast
qed

text \<open>
  The claim as it was stated fails: an identity with more separators than the shape
  has is accepted, for each of the three shapes.
\<close>

theorem import_keeps_extra_separators:
  "count_list ''a/b/c/d'' CHR ''/'' = 3
   \<and> Index_ImportState ''a/b/c/d'' =
       \<lparr>calls = [], diags = [],
        state = Set (index_zero\<lparr>ix_ID := Known ''a/b/c/d'', ix_Name := Known ''c/d'',
                                 ix_Collection := Known ''b'', ix_Database := Known ''a''\<rparr>)\<rparr>
   \<and> Collection_ImportState ''a/b/c'' =
       \<lparr>calls = [], diags = [],
        state = Set (collection_zero\<lparr>co_ID := Known ''a/b/c'', co_Name := Known ''b/c'',
                                      co_Database := Known ''a''\<rparr>)\<rparr>
   \<and> Database_ImportState ''a/b'' =
       \<lparr>calls = [], diags = [],
        state = Set (database_zero\<lparr>db_ID := Known ''a/b'', db_Name := Known ''a/b''\<rparr>)\<rparr>"
proof -
  have t: "TrimSpace ''a/b/c/d'' = ''a/b/c/d''" "TrimSpace ''a/b/c'' = ''a/b/c''"
    "TrimSpace ''a/b'' = ''a/b''"
    by (simp_all add: TrimSpace_def TrimRightFunc_def rune_len_def space_runes_def)
  show ?thesis
    by (simp add: Index_ImportState_def Collection_ImportState_def Database_ImportState_def
          Let_def t SplitN_3 SplitN_2)
qed

text \<open>
  Claim C4, as the code has it. For non-empty parts without separator, where the first
  part of the identity does not start and its last part does not end with white space,
  importing the encoded identity gives back exactly the parts, for the three shapes.
\<close>

theorem identity_round_trip:
  "(n \<noteq> [] \<longrightarrow> CHR ''/'' \<notin> set n \<longrightarrow> \<not> leading_space n \<longrightarrow> \<not> trailing_space n
      \<longrightarrow> Database_ImportState n =
            \<lparr>calls = [], diags = [],
             state = Set (database_zero\<lparr>db_ID := Known n, db_Name := Known n\<rparr>)\<rparr>)
   \<and> (d \<noteq> [] \<longrightarrow> n \<noteq> [] \<longrightarrow> CHR ''/'' \<notin> set d \<longrightarrow> CHR ''/'' \<notin> set n
      \<longrightarrow> \<not> leading_space d \<longrightarrow> \<not> trailing_space n
      \<longrightarrow> Collection_ImportState (collection_id d n) =
            \<lparr>calls = [], diags = [],
             state = Set (collection_zero\<lparr>co_ID := Known (collection_id d n),
                                           co_Name := Known n,
                                           co_Database := Known d\<rparr>)\<rparr>)
   \<and> (d \<noteq> [] \<longrightarrow> c \<noteq> [] \<longrightarrow> n \<noteq> []
      \<longrightarrow> CHR ''/'' \<notin> set d \<longrightarrow> CHR ''/'' \<notin> set c \<longrightarrow> CHR ''/'' \<notin> set n
      \<longrightarrow> \<not> leading_space d \<longrightarrow> \<not> trailing_space n
      \<longrightarrow> Index_ImportState (index_id d c n) =
            \<lparr>calls = [], diags = [],
             state = Set (index_zero\<lparr>ix_ID := Known (index_id d c n),
                                      ix_Name := Known n,
                                      ix_Collection := Known c,
                                      ix_Database := Known d\<rparr>)\<rparr>)"
proof (intro conjI impI)
  assume "n \<noteq> []" and "\<not> leading_space n" and "\<not> trailing_space n"
  then show "Database_ImportState n =
            \<lparr>calls = [], diags = [],
             state = Set (database_zero\<lparr>db_ID := Known n, db_Name := Known n\<rparr>)\<rparr>"
    by (simp add: Database_ImportState_def Let_def TrimSpace_id)
next
  assume h: "d \<noteq> []" "n \<noteq> []" "CHR ''/'' \<notin> set d" "\<not> leading_space d" "\<not> trailing_space n"
  have "\<not> leading_space (collection_id d n)" and "\<not> trailing_space (collection_id d n)"
    using h(4,5) by (simp_all add: collection_id_def leading_space_before_slash
                       trailing_space_after_slash)
  then have "TrimSpace (collection_id d n) = collection_id d n"
    by (rule TrimSpace_id)
  then show "Collection_ImportState (collection_id d n) =
            \<lparr>calls = [], diags = [],
             state = Set (collection_zero\<lparr>co_ID := Known (collection_id d n),
                                           co_Name := Known n,
                                           co_Database := Known d\<rparr>)\<rparr>"
    using h(1,2,3) by (rule Collection_ImportState_accepts)
next
  assume h: "d \<noteq> []" "c \<noteq> []" "n \<noteq> []" "CHR ''/'' \<notin> set d" "CHR ''/'' \<notin> set c"
    "\<not> leading_space d" "\<not> trailing_space n"
  have "\<not> leading_space (index_id d c n)"
    using h(6) by (simp add: index_id_def leading_space_before_slash)
  moreover have "\<not> trailing_space ((d @ CHR ''/'' # c) @ CHR ''/'' # n)"
    using h(7) by (rule trailing_space_after_slash)
  then have "\<not> trailing_space (index_id d c n)"
    by (simp add: index_id_def)
  ultimately have "TrimSpace (index_id d c n) = index_id d c n"
    by (rule TrimSpace_id)
  then show "Index_ImportState (index_id d c n) =
            \<lparr>calls = [], diags = [],
             state = Set (index_zero\<lparr>ix_ID := Known (index_id d c n),
                                      ix_Name := Known n,
                                      ix_Collection := Known c,
                                      ix_Database := Known d\<rparr>)\<rparr>"
    using h(1,2,3,4,5) by (rule Index_ImportState_accepts)
qed

theorem identity_round_trip_witness:
  "Database_ImportState ''shop'' =
     \<lparr>calls = [], diags = [],
      state = Set (database_zero\<lparr>db_ID := Known ''shop'', db_Name := Known ''shop''\<rparr>)\<rparr>
   \<and> Collection_ImportState ''shop/orders'' =
     \<lparr>calls = [], diags = [],
      state = Set (collection_zero\<lparr>co_ID := Known ''shop/orders'', co_Name := Known ''orders'',
                                    co_Database := Known ''shop''\<rparr>)\<rparr>
   \<and> Index_ImportState ''shop/orders/by_a'' =
     \<lparr>calls = [], diags = [],
      state = Set (index_zero\<lparr>ix_ID := Known ''shop/orders/by_a'', ix_Name := Known ''by_a'',
                               ix_Collection := Known ''orders'',
                               ix_Database := Known ''shop''\<rparr>)\<rparr>"
proof -
  have l: "\<not> leading_space ''shop''" and t: "\<not> trailing_space ''shop''"
    "\<not> trailing_space ''orders''" "\<not> trailing_space ''by_a''"
    by (simp_all add: leading_space_def trailing_space_def space_runes_def suffix_to_prefix)
  have ne: "''shop'' \<noteq> []" "''orders'' \<noteq> []" "''by_a'' \<noteq> []"
    and ns: "CHR ''/'' \<notin> set ''shop''" "CHR ''/'' \<notin> set ''orders''"
      "CHR ''/'' \<notin> set ''by_a''"
    by simp_all
  show ?thesis
    using identity_round_trip [of "''shop''" "''shop''" "''orders''"]
          identity_round_trip [of "''orders''" "''shop''" "''orders''"]
          identity_round_trip [of "''by_a''" "''shop''" "''orders''"]
          l t ne ns
    by (simp add: collection_id_def index_id_def)
qed

text \<open>
  The claim as it was stated fails: a name that ends with a space is non-empty and has
  no separator, and the import of its identity gives the name without the space.
\<close>

theorem round_trip_loses_trailing_space:
  "''c '' \<noteq> [] \<and> CHR ''/'' \<notin> set ''c ''
   \<and> state (Index_ImportState (index_id ''a'' ''b'' ''c ''))
       = Set (index_zero\<lparr>ix_ID := Known ''a/b/c'', ix_Name := Known ''c'',
                          ix_Collection := Known ''b'', ix_Database := Known ''a''\<rparr>)
   \<and> ''c'' \<noteq> ''c ''"
proof -
  have t: "TrimSpace ''a/b/c '' = ''a/b/c''"
    by (simp add: TrimSpace_def TrimRightFunc_def rune_len_def space_runes_def)
  show ?thesis
    by (simp add: Index_ImportState_def Let_def index_id_def t SplitN_3 SplitN_2)
qed

end
